theory Spec2Isabelle
  imports Main
begin

section \<open>The FileUpload component of Data-doctor\<close>

text \<open>
  This theory embeds \<^verbatim>\<open>src/frontend/src/components/molecules/FileUpload.tsx\<close>: the React
  state of the component, its polling effect, \<^verbatim>\<open>onDrop\<close> and \<^verbatim>\<open>cancelUpload\<close>.
  Every \<^verbatim>\<open>async\<close> function is cut at its \<^verbatim>\<open>await\<close>: the part before the
  \<^verbatim>\<open>await\<close> issues a request, the part after it runs when the environment settles that
  request. The code after an \<^verbatim>\<open>await\<close> only calls state setters (it reads no state), so
  it acts on whatever the state is when the response arrives. All setter calls of one handler
  are taken together; the polling effect is re-evaluated afterwards, as React does after a render.
  What the parent does when \<^verbatim>\<open>onComplete\<close> is called (it may unmount the component) lies
  outside this component and outside the model, and so does \<^verbatim>\<open>replaceUpload\<close>, which nothing
  calls.
\<close>

subsection \<open>Data\<close>

text \<open>The browser's \<^verbatim>\<open>File\<close>: only \<^verbatim>\<open>name\<close> and \<^verbatim>\<open>size\<close> are read.\<close>

record js_file =
  name :: string
  size_bytes :: nat

text \<open>
  \<^verbatim>\<open>response.data\<close> of \<^verbatim>\<open>GET /upload/{id}/status\<close>. The field \<^verbatim>\<open>error\<close> of the payload
  is called \<open>error_field\<close> here, since \<open>error\<close> is the component's own state variable.
  \<^verbatim>\<open>progress\<close> is stored as it comes and never computed with.
\<close>

record status_payload =
  status :: string
  progress :: int
  filename :: "string option"
  file_size :: "nat option"
  error_field :: "string option"

text \<open>The error object caught when \<^verbatim>\<open>axios.post\<close> rejects: the fields \<^verbatim>\<open>onDrop\<close> reads.\<close>

record axios_error =
  code :: "string option"
  message :: string
  response_status :: "nat option"
  response_data_message :: "string option"
  response_data_detail :: "string option"

text \<open>The \<^verbatim>\<open>useState\<close> variables of the component.\<close>

record component =
  isUploading :: bool
  uploadedFile :: "js_file option"
  uploadId :: "string option"
  uploadProgress :: int
  uploadStatus :: string
  error :: "string option"
  showSizeHelper :: bool
  rejectedFile :: "js_file option"
  validationErrors :: "string list"
  validationWarnings :: "string list"
  showValidation :: bool

text \<open>
  What a handler does to the outside: network requests, toasts, \<^verbatim>\<open>console.error\<close>, the
  \<^verbatim>\<open>onComplete\<close> callback (upload id, file name, file size, status; the time stamp
  \<^verbatim>\<open>new Date()\<close> is left out) and \<^verbatim>\<open>addError\<close> (message, type, details).
  \<^verbatim>\<open>console.log\<close> calls are not recorded. The action handed to \<^verbatim>\<open>addError\<close> is stored in
  the state of this component's own \<^verbatim>\<open>useErrorManager\<close> hook, which the component never
  renders, so nothing can invoke it.
\<close>

datatype effect =
    AxiosGetStatus string
  | AxiosGetRoot
  | AxiosPostUpload js_file
  | AxiosDelete string
  | ToastSuccess string
  | ToastError string
  | ToastPlain string
  | ConsoleError string
  | OnComplete string "string option" "nat option" string
  | AddError string string string

definition is_request :: "effect \<Rightarrow> bool" where
  "is_request e = (case e of AxiosGetStatus _ \<Rightarrow> True | AxiosGetRoot \<Rightarrow> True
                     | AxiosPostUpload _ \<Rightarrow> True | AxiosDelete _ \<Rightarrow> True | _ \<Rightarrow> False)"

definition initial :: component where
  "initial = \<lparr>isUploading = False, uploadedFile = None, uploadId = None, uploadProgress = 0,
     uploadStatus = ''idle'', error = None, showSizeHelper = False, rejectedFile = None,
     validationErrors = [], validationWarnings = [], showValidation = False\<rparr>"

text \<open>The values the type annotation of \<^verbatim>\<open>uploadStatus\<close> declares.\<close>

definition declared_statuses :: "string set" where
  "declared_statuses = {''idle'', ''uploading'', ''completed'', ''error'', ''cancelled''}"

subsection \<open>JavaScript helpers\<close>

text \<open>A \<^verbatim>\<open>string | null\<close> is truthy when it is a non-empty string.\<close>

definition truthy :: "string option \<Rightarrow> bool" where
  "truthy v = (case v of None \<Rightarrow> False | Some t \<Rightarrow> t \<noteq> [])"

text \<open>\<^verbatim>\<open>v || d\<close> on an optional string.\<close>

definition or_else :: "string option \<Rightarrow> string \<Rightarrow> string" where
  "or_else v d = (case v of None \<Rightarrow> d | Some t \<Rightarrow> if t = [] then d else t)"

fun starts_with :: "string \<Rightarrow> string \<Rightarrow> bool" where
  "starts_with _ [] = True"
| "starts_with [] (_ # _) = False"
| "starts_with (x # xs) (y # ys) = (x = y \<and> starts_with xs ys)"

text \<open>\<^verbatim>\<open>s.includes(t)\<close>.\<close>

fun includes_str :: "string \<Rightarrow> string \<Rightarrow> bool" where
  "includes_str [] t = (t = [])"
| "includes_str (x # xs) t = (starts_with (x # xs) t \<or> includes_str xs t)"

text \<open>The decimal digit \<open>d\<close>, for \<open>d < 10\<close>, and a natural number in decimal.\<close>

definition digit :: "nat \<Rightarrow> char" where
  "digit d = ''0123456789'' ! d"

function show_nat :: "nat \<Rightarrow> string" where
  "show_nat n = (if n < 10 then [digit n] else show_nat (n div 10) @ [digit (n mod 10)])"
  by pat_completeness auto
termination
  by (relation "measure id") auto

declare show_nat.simps [simp del]

text \<open>
  Reading a decimal numeral back: \<open>read_nat\<close> gives the number a non-empty string of digits
  denotes, and nothing for any other string. It is used to say what a message carries.
\<close>

definition digit_value :: "char \<Rightarrow> nat option" where
  "digit_value c =
     (let n = (of_char c :: nat) in if 48 \<le> n \<and> n \<le> 57 then Some (n - 48) else None)"

fun value_rev :: "string \<Rightarrow> nat option" where
  "value_rev [] = Some 0"
| "value_rev (c # cs) =
     (case digit_value c of
        None \<Rightarrow> None
      | Some d \<Rightarrow> (case value_rev cs of None \<Rightarrow> None | Some v \<Rightarrow> Some (d + 10 * v)))"

definition read_nat :: "string \<Rightarrow> nat option" where
  "read_nat t = (if t = [] then None else value_rev (rev t))"

text \<open>
  \<^verbatim>\<open>(bytes / (1024 * 1024)).toFixed(2)\<close> and \<^verbatim>\<open>.toFixed(0)\<close>, for \<open>bytes < 2 ^ 53\<close>: the
  sizes a \<^verbatim>\<open>File\<close> can report exactly. Dividing an integer below \<open>2 ^ 53\<close> by a power of
  two is exact in floating point, and \<^verbatim>\<open>toFixed\<close> takes the integer \<open>n\<close> with \<open>n / 10 ^ d\<close>
  nearest to the exact quotient, the larger one on a tie: rounding half up, done here on
  integers. Beyond \<open>2 ^ 53\<close> these functions say nothing about the code (from a quotient of
  \<open>10 ^ 21\<close> on, \<^verbatim>\<open>toFixed\<close> switches to exponent notation).
\<close>

definition toFixed2_MB :: "nat \<Rightarrow> string" where
  "toFixed2_MB bytes =
     (let n = (200 * bytes + 1024 * 1024) div (2 * 1024 * 1024)
      in show_nat (n div 100) @ ''.'' @ [digit ((n mod 100) div 10), digit (n mod 10)])"

definition toFixed0_MB :: "nat \<Rightarrow> string" where
  "toFixed0_MB bytes = show_nat ((2 * bytes + 1024 * 1024) div (2 * 1024 * 1024))"

subsection \<open>The handlers on the component state\<close>

definition maxSize :: nat where
  "maxSize = 1024 * 1024 * 1024"

definition too_large_message :: "nat \<Rightarrow> string" where
  "too_large_message bytes =
     ''File too large: '' @ toFixed2_MB bytes @ ''MB. Maximum size is '' @ toFixed0_MB maxSize @ ''MB.''"

text \<open>The guard of the polling effect: an interval is installed exactly when it holds.\<close>

definition poll_guard :: "component \<Rightarrow> bool" where
  "poll_guard c = (\<not> (\<not> truthy (uploadId c) \<or> uploadStatus c = ''completed''
                       \<or> uploadStatus c = ''error'' \<or> uploadStatus c = ''cancelled''))"

text \<open>
  \<^verbatim>\<open>pollStatus\<close> after its \<^verbatim>\<open>await\<close>, the request having succeeded with payload \<open>p\<close>.
  \<open>j\<close> is the \<^verbatim>\<open>uploadId\<close> of the closure, the one the request was made for; it is used in
  the argument of \<^verbatim>\<open>onComplete\<close> and nowhere else.
\<close>

definition pollStatus_resolved :: "string \<Rightarrow> status_payload \<Rightarrow> component \<Rightarrow> component \<times> effect list" where
  "pollStatus_resolved j p c =
     (let c1 = c\<lparr>uploadProgress := progress p, uploadStatus := status p\<rparr>
      in if status p = ''uploaded'' then
           (c1\<lparr>uploadStatus := ''completed'', isUploading := False\<rparr>,
            [ToastSuccess ''File uploaded successfully!'',
             OnComplete j (filename p) (file_size p) ''uploaded''])
         else if status p = ''error'' then
           (c1\<lparr>uploadStatus := ''error'',
               error := Some (or_else (error_field p) ''Upload failed''),
               isUploading := False\<rparr>,
            [ToastError (or_else (error_field p) ''Upload failed'')])
         else (c1, []))"

text \<open>The \<^verbatim>\<open>catch\<close> branch of \<^verbatim>\<open>pollStatus\<close>: the request failed.\<close>

definition pollStatus_rejected :: "component \<Rightarrow> component \<times> effect list" where
  "pollStatus_rejected c =
     (c\<lparr>uploadStatus := ''error'', error := Some ''Failed to check upload status'',
        isUploading := False\<rparr>,
      [ConsoleError ''Status polling error:''])"

text \<open>\<^verbatim>\<open>onDrop\<close> on a file above the limit: the branch that returns early.\<close>

definition onDrop_reject :: "js_file \<Rightarrow> component \<Rightarrow> component \<times> effect list" where
  "onDrop_reject f c =
     (c\<lparr>uploadStatus := ''error'', error := Some (too_large_message (size_bytes f)),
        rejectedFile := Some f, showSizeHelper := True\<rparr>,
      [ToastError (too_large_message (size_bytes f))])"

text \<open>\<^verbatim>\<open>onDrop\<close> from \<^verbatim>\<open>setUploadedFile(file)\<close> up to the \<^verbatim>\<open>await axios.post\<close>.\<close>

definition onDrop_start :: "js_file \<Rightarrow> component \<Rightarrow> component \<times> effect list" where
  "onDrop_start f c =
     (c\<lparr>uploadedFile := Some f, isUploading := True, uploadStatus := ''uploading'',
        uploadProgress := 0, error := None, validationErrors := [],
        validationWarnings := [], showValidation := False\<rparr>,
      [AxiosPostUpload f])"

text \<open>\<^verbatim>\<open>onDrop\<close> after \<^verbatim>\<open>axios.post\<close> resolved with \<^verbatim>\<open>{upload_id: i}\<close>.\<close>

definition onDrop_accepted :: "string \<Rightarrow> component \<Rightarrow> component \<times> effect list" where
  "onDrop_accepted i c = (c\<lparr>uploadId := Some i\<rparr>, [ToastSuccess ''Upload started!''])"

text \<open>The chain of conditions in the \<^verbatim>\<open>catch\<close> branch of \<^verbatim>\<open>onDrop\<close>: message and details.\<close>

definition upload_error_text :: "axios_error \<Rightarrow> string \<times> string" where
  "upload_error_text e =
     (if code e = Some ''NETWORK_ERROR'' \<or> includes_str (message e) ''Network Error'' then
        (''Cannot connect to server'',
         ''Please ensure the backend is running on http://localhost:8000'')
      else if response_status e = Some 413 then
        (''File too large'', ''The file exceeds the maximum size limit of 1GB'')
      else if response_status e = Some 415 then
        (''Unsupported file type'', ''Please upload CSV, Excel, or JSON files only'')
      else if response_status e = Some 500 then
        (''Server error'', ''Please try again or contact support if the issue persists'')
      else if code e = Some ''NETWORK_ERROR'' then
        (''Network error'', ''Please check your internet connection and try again'')
      else if truthy (response_data_message e) then
        (or_else (response_data_message e) [], or_else (response_data_detail e) [])
      else (''Failed to start upload'', []))"

definition onDrop_failed :: "axios_error \<Rightarrow> component \<Rightarrow> component \<times> effect list" where
  "onDrop_failed e c =
     (let (errorMessage, errorDetails) = upload_error_text e
      in (c\<lparr>uploadStatus := ''error'', error := Some errorMessage, isUploading := False\<rparr>,
          [ConsoleError ''Upload error:'', ConsoleError ''Error details:'',
           AddError errorMessage ''error'' errorDetails, ToastError errorMessage]))"

text \<open>\<^verbatim>\<open>cancelUpload\<close> after \<^verbatim>\<open>axios.delete\<close> resolved, and its \<^verbatim>\<open>catch\<close> branch.\<close>

definition cancelUpload_resolved :: "component \<Rightarrow> component \<times> effect list" where
  "cancelUpload_resolved c =
     (c\<lparr>uploadStatus := ''cancelled'', isUploading := False, uploadProgress := 0\<rparr>,
      [ToastPlain ''Upload cancelled''])"

definition cancelUpload_rejected :: "component \<Rightarrow> component \<times> effect list" where
  "cancelUpload_rejected c =
     (c, [ConsoleError ''Cancel upload error:'', ToastError ''Failed to cancel upload''])"

text \<open>
  The \<^verbatim>\<open>onClick\<close> of the buttons "Upload New File", "Try Again" and "Start New Upload",
  and of the action given to \<^verbatim>\<open>addError\<close>: the same five setter calls.
\<close>

definition reset :: "component \<Rightarrow> component" where
  "reset c = c\<lparr>uploadedFile := None, uploadId := None, uploadStatus := ''idle'',
               uploadProgress := 0, error := None\<rparr>"

text \<open>The \<^verbatim>\<open>onClick\<close> of "Get Help" and the \<^verbatim>\<open>onClose\<close> given to \<^verbatim>\<open>FileSizeHelper\<close>.\<close>

definition getHelp :: "component \<Rightarrow> component" where
  "getHelp c = c\<lparr>showSizeHelper := True\<rparr>"

definition sizeHelper_onClose :: "component \<Rightarrow> component" where
  "sizeHelper_onClose c =
     c\<lparr>showSizeHelper := False, rejectedFile := None, uploadStatus := ''idle'', error := None\<rparr>"

text \<open>The \<^verbatim>\<open>onDismiss\<close> and \<^verbatim>\<open>onRetry\<close> given to \<^verbatim>\<open>ValidationErrors\<close>.\<close>

definition validation_onDismiss :: "component \<Rightarrow> component" where
  "validation_onDismiss c =
     c\<lparr>showValidation := False, validationErrors := [], validationWarnings := []\<rparr>"

definition validation_onRetry :: "component \<Rightarrow> component" where
  "validation_onRetry c =
     c\<lparr>showValidation := False, validationErrors := [], validationWarnings := [],
       error := None, uploadStatus := ''idle''\<rparr>"

text \<open>
  \<^verbatim>\<open>testBackendConnection\<close> after its \<^verbatim>\<open>await\<close>: it touches no state.
\<close>

definition testBackendConnection_resolved :: "effect list" where
  "testBackendConnection_resolved = [ToastSuccess ''Backend is connected!'']"

definition testBackendConnection_rejected :: "effect list" where
  "testBackendConnection_rejected =
     [ConsoleError ''Backend connection failed:'', ToastError ''Cannot connect to backend server'']"

text \<open>
  What the JSX renders, which decides what the user can click: the cancel button in the
  \<^verbatim>\<open>"uploading"\<close> branch; a button with the five resetting setters in each of the
  \<^verbatim>\<open>"completed"\<close>, \<^verbatim>\<open>"error"\<close> and \<^verbatim>\<open>"cancelled"\<close> branches; "Get Help" in the \<^verbatim>\<open>"error"\<close>
  branch when the message includes "too large"; \<^verbatim>\<open>FileSizeHelper\<close> and
  \<^verbatim>\<open>ValidationErrors\<close> under their own conditions. The button "Test Backend Connection"
  and the dropzone are always there. While \<^verbatim>\<open>isUploading\<close> holds, the class
  \<^verbatim>\<open>pointer-events-none\<close> keeps the mouse from the dropzone and the buttons inside it, not
  the keyboard, so it disables nothing here.
\<close>

definition cancel_rendered :: "component \<Rightarrow> bool" where
  "cancel_rendered c = (uploadStatus c = ''uploading'')"

definition reset_rendered :: "component \<Rightarrow> bool" where
  "reset_rendered c =
     (uploadStatus c = ''completed'' \<or> uploadStatus c = ''error'' \<or> uploadStatus c = ''cancelled'')"

definition getHelp_rendered :: "component \<Rightarrow> bool" where
  "getHelp_rendered c =
     (uploadStatus c = ''error'' \<and>
      (case error c of None \<Rightarrow> False | Some e \<Rightarrow> includes_str e ''too large''))"

definition sizeHelper_rendered :: "component \<Rightarrow> bool" where
  "sizeHelper_rendered c = (showSizeHelper c \<and> rejectedFile c \<noteq> None)"

definition validation_rendered :: "component \<Rightarrow> bool" where
  "validation_rendered c =
     (showValidation c \<and> (validationErrors c \<noteq> [] \<or> validationWarnings c \<noteq> []))"

subsection \<open>The session: component, timer and requests in flight\<close>

text \<open>
  A request that has been sent and not yet settled, with the code that resumes when it
  settles: a status request of \<^verbatim>\<open>pollStatus\<close> (with the \<^verbatim>\<open>uploadId\<close> of its closure), the
  \<^verbatim>\<open>axios.delete\<close> of \<^verbatim>\<open>cancelUpload\<close> (followed by the rest of \<^verbatim>\<open>onDrop\<close> on a file when
  \<^verbatim>\<open>onDrop\<close> awaits it, by nothing when the cancel button called it), the
  \<^verbatim>\<open>axios.post\<close> of \<^verbatim>\<open>onDrop\<close>, and the \<^verbatim>\<open>axios.get\<close> of \<^verbatim>\<open>testBackendConnection\<close>.
\<close>

datatype pending =
    PollStatus string
  | CancelUpload string "js_file option"
  | StartUpload js_file
  | TestBackend

datatype response =
    StatusOk status_payload
  | UploadOk string
  | DeleteOk
  | BackendOk
  | Rejected axios_error

text \<open>
  \<open>interval\<close> is the timer of the polling effect, with the \<^verbatim>\<open>uploadId\<close> its
  \<^verbatim>\<open>pollStatus\<close> closure holds; \<open>effects\<close> is everything done to the outside so far, in order.
\<close>

record session =
  vars :: component
  interval :: "string option"
  in_flight :: "pending list"
  effects :: "effect list"

text \<open>
  What can happen to a mounted component: the interval fires, files are dropped or chosen,
  one of the buttons is clicked, one of the two dialogs calls back, a request settles.
\<close>

datatype event =
    Tick
  | Drop "js_file list"
  | ClickCancel
  | ClickReset
  | ClickGetHelp
  | CloseSizeHelper
  | DismissValidation
  | RetryValidation
  | ClickTestBackend
  | Settle nat response

text \<open>
  The polling effect after a render: the cleanup clears the old interval, and a new one is
  set exactly when the guard holds, for the \<^verbatim>\<open>uploadId\<close> of that render. React runs the
  effect again only when \<^verbatim>\<open>uploadId\<close>, \<^verbatim>\<open>uploadStatus\<close> or \<^verbatim>\<open>onComplete\<close> changed; the
  guard reads nothing but the first two, so the interval React keeps otherwise is the one
  computed here.
\<close>

definition useEffect_interval :: "component \<Rightarrow> string option" where
  "useEffect_interval c = (if poll_guard c then uploadId c else None)"

definition render :: "session \<Rightarrow> component \<times> effect list \<Rightarrow> pending list \<Rightarrow> session" where
  "render s r ps =
     \<lparr>vars = fst r, interval = useEffect_interval (fst r), in_flight = ps,
      effects = effects s @ snd r\<rparr>"

definition mount :: session where
  "mount = \<lparr>vars = initial, interval = None, in_flight = [], effects = []\<rparr>"

definition without :: "nat \<Rightarrow> 'a list \<Rightarrow> 'a list" where
  "without k xs = take k xs @ drop (Suc k) xs"

text \<open>The interval fires: \<^verbatim>\<open>pollStatus\<close> up to its \<^verbatim>\<open>await axios.get\<close>.\<close>

definition tick :: "session \<Rightarrow> session" where
  "tick s =
     (case interval s of
        None \<Rightarrow> s
      | Some j \<Rightarrow> s\<lparr>in_flight := in_flight s @ [PollStatus j],
                    effects := effects s @ [AxiosGetStatus j]\<rparr>)"

text \<open>\<^verbatim>\<open>cancelUpload\<close> up to its \<^verbatim>\<open>await axios.delete\<close>, resuming with \<open>k\<close> afterwards.\<close>

definition cancelUpload :: "js_file option \<Rightarrow> session \<Rightarrow> session option" where
  "cancelUpload k s =
     (case uploadId (vars s) of
        None \<Rightarrow> None
      | Some j \<Rightarrow>
          if j = [] then None
          else Some (s\<lparr>in_flight := in_flight s @ [CancelUpload j k],
                       effects := effects s @ [AxiosDelete j]\<rparr>))"

text \<open>\<^verbatim>\<open>onDrop\<close> from \<^verbatim>\<open>setUploadedFile(file)\<close> on: the transfer of \<open>f\<close> begins.\<close>

definition begin_transfer :: "js_file \<Rightarrow> session \<Rightarrow> session" where
  "begin_transfer f s = render s (onDrop_start f (vars s)) (in_flight s @ [StartUpload f])"

text \<open>
  \<^verbatim>\<open>onDrop\<close> up to its first \<^verbatim>\<open>await\<close>. When \<^verbatim>\<open>cancelUpload\<close> returns at once (no
  \<^verbatim>\<open>uploadId\<close>), \<^verbatim>\<open>onDrop\<close> goes on to the transfer.
\<close>

definition onDrop :: "js_file list \<Rightarrow> session \<Rightarrow> session" where
  "onDrop acceptedFiles s =
     (case acceptedFiles of
        [] \<Rightarrow> s
      | f # _ \<Rightarrow>
          if size_bytes f > maxSize then render s (onDrop_reject f (vars s)) (in_flight s)
          else if truthy (uploadId (vars s)) \<and> uploadStatus (vars s) = ''uploading'' then
            (case cancelUpload (Some f) s of
               Some s' \<Rightarrow> s'
             | None \<Rightarrow> begin_transfer f s)
          else begin_transfer f s)"

text \<open>The code that resumes when the request \<open>q\<close> settles with \<open>r\<close>.\<close>

fun resume :: "pending \<Rightarrow> response \<Rightarrow> session \<Rightarrow> session" where
  "resume (PollStatus j) (StatusOk p) s = render s (pollStatus_resolved j p (vars s)) (in_flight s)"
| "resume (PollStatus j) (Rejected e) s = render s (pollStatus_rejected (vars s)) (in_flight s)"
| "resume (CancelUpload j k) DeleteOk s =
     (let s' = render s (cancelUpload_resolved (vars s)) (in_flight s)
      in case k of None \<Rightarrow> s' | Some f \<Rightarrow> begin_transfer f s')"
| "resume (CancelUpload j k) (Rejected e) s =
     (let s' = render s (cancelUpload_rejected (vars s)) (in_flight s)
      in case k of None \<Rightarrow> s' | Some f \<Rightarrow> begin_transfer f s')"
| "resume (StartUpload f) (UploadOk i) s = render s (onDrop_accepted i (vars s)) (in_flight s)"
| "resume (StartUpload f) (Rejected e) s = render s (onDrop_failed e (vars s)) (in_flight s)"
| "resume TestBackend BackendOk s = render s (vars s, testBackendConnection_resolved) (in_flight s)"
| "resume TestBackend (Rejected e) s =
     render s (vars s, testBackendConnection_rejected) (in_flight s)"
| "resume _ _ s = s"

text \<open>
  The request at position \<open>k\<close> settles with \<open>r\<close>. A position beyond the list, or an
  answer of the wrong kind for the request, is not an event of the system: nothing happens.
\<close>

definition answers :: "pending \<Rightarrow> response \<Rightarrow> bool" where
  "answers q r =
     (case (q, r) of
        (PollStatus _, StatusOk _) \<Rightarrow> True
      | (CancelUpload _ _, DeleteOk) \<Rightarrow> True
      | (StartUpload _, UploadOk _) \<Rightarrow> True
      | (TestBackend, BackendOk) \<Rightarrow> True
      | (_, Rejected _) \<Rightarrow> True
      | _ \<Rightarrow> False)"

definition settle :: "nat \<Rightarrow> response \<Rightarrow> session \<Rightarrow> session" where
  "settle k r s =
     (if k < length (in_flight s) \<and> answers (in_flight s ! k) r
      then resume (in_flight s ! k) r (s\<lparr>in_flight := without k (in_flight s)\<rparr>)
      else s)"

text \<open>
  A click changes something only when its button or dialog is rendered; the dropzone
  takes files in every state.
\<close>

definition click :: "bool \<Rightarrow> (component \<Rightarrow> component) \<Rightarrow> session \<Rightarrow> session" where
  "click rendered handler s =
     (if rendered then render s (handler (vars s), []) (in_flight s) else s)"

fun step :: "session \<Rightarrow> event \<Rightarrow> session" where
  "step s Tick = tick s"
| "step s (Drop acceptedFiles) = onDrop acceptedFiles s"
| "step s ClickCancel =
     (if cancel_rendered (vars s)
      then (case cancelUpload None s of None \<Rightarrow> s | Some s' \<Rightarrow> s')
      else s)"
| "step s ClickReset = click (reset_rendered (vars s)) reset s"
| "step s ClickGetHelp = click (getHelp_rendered (vars s)) getHelp s"
| "step s CloseSizeHelper = click (sizeHelper_rendered (vars s)) sizeHelper_onClose s"
| "step s DismissValidation = click (validation_rendered (vars s)) validation_onDismiss s"
| "step s RetryValidation = click (validation_rendered (vars s)) validation_onRetry s"
| "step s ClickTestBackend =
     s\<lparr>in_flight := in_flight s @ [TestBackend], effects := effects s @ [AxiosGetRoot]\<rparr>"
| "step s (Settle k r) = settle k r s"

definition run :: "event list \<Rightarrow> session" where
  "run evs = foldl step mount evs"

subsection \<open>Observations on a session\<close>

text \<open>The interval is the one the polling effect sets for the current state.\<close>

definition timer_current :: "session \<Rightarrow> bool" where
  "timer_current s = (interval s = useEffect_interval (vars s))"

text \<open>The status requests that have been sent and not yet settled.\<close>

definition is_poll :: "pending \<Rightarrow> bool" where
  "is_poll q = (case q of PollStatus _ \<Rightarrow> True | _ \<Rightarrow> False)"

definition outstanding_polls :: "session \<Rightarrow> nat" where
  "outstanding_polls s = length (filter is_poll (in_flight s))"

definition is_upload :: "pending \<Rightarrow> bool" where
  "is_upload q = (case q of StartUpload _ \<Rightarrow> True | _ \<Rightarrow> False)"

text \<open>
  The progress value an event reports: that of the payload when the event is the answer
  to a status request in flight, none for any other event.
\<close>

definition reported_progress :: "session \<Rightarrow> event \<Rightarrow> int option" where
  "reported_progress s ev =
     (case ev of
        Settle k (StatusOk p) \<Rightarrow>
          if k < length (in_flight s) \<and> is_poll (in_flight s ! k) then Some (progress p) else None
      | _ \<Rightarrow> None)"

text \<open>
  The events that need no user: the interval fires, a request settles. A request in
  flight is \<open>quiet\<close> when the code resuming after it cannot set a status under which the
  poller runs: that is every request but a status request and a cancel request after
  which \<^verbatim>\<open>onDrop\<close> goes on to start a transfer.
\<close>

definition environment_event :: "event \<Rightarrow> bool" where
  "environment_event ev = (case ev of Tick \<Rightarrow> True | Settle _ _ \<Rightarrow> True | _ \<Rightarrow> False)"

definition quiet :: "pending \<Rightarrow> bool" where
  "quiet q = (case q of PollStatus _ \<Rightarrow> False | CancelUpload _ (Some _) \<Rightarrow> False | _ \<Rightarrow> True)"

text \<open>Polling has stopped and only quiet requests are in flight.\<close>

definition polling_stopped :: "session \<Rightarrow> bool" where
  "polling_stopped s =
     ((uploadStatus (vars s) = ''error'' \<or> uploadStatus (vars s) = ''cancelled'' \<or>
       uploadStatus (vars s) = ''completed'')
      \<and> interval s = None \<and> list_all quiet (in_flight s))"

subsection \<open>Example data\<close>

definition csv_50MB :: js_file where
  "csv_50MB = \<lparr>name = ''data.csv'', size_bytes = 50 * 1024 * 1024\<rparr>"

definition csv_2GB :: js_file where
  "csv_2GB = \<lparr>name = ''big.csv'', size_bytes = 2 * 1024 * 1024 * 1024\<rparr>"

definition second_csv :: js_file where
  "second_csv = \<lparr>name = ''other.csv'', size_bytes = 1024\<rparr>"

definition remote_status :: "string \<Rightarrow> int \<Rightarrow> string option \<Rightarrow> status_payload" where
  "remote_status st pr er =
     \<lparr>status = st, progress = pr, filename = Some ''data.csv'',
      file_size = Some (50 * 1024 * 1024), error_field = er\<rparr>"

definition network_down :: axios_error where
  "network_down = \<lparr>code = Some ''ERR_NETWORK'', message = ''Network Error'',
     response_status = None, response_data_message = None, response_data_detail = None\<rparr>"

text \<open>A file was dropped and the service accepted it as job \<open>J1\<close>: the poller is running.\<close>

definition polling_J1 :: session where
  "polling_J1 = run [Drop [csv_50MB], Settle 0 (UploadOk ''J1'')]"

text \<open>The same, one status request having been sent.\<close>

definition one_poll_out :: session where
  "one_poll_out = step polling_J1 Tick"

text \<open>The same, a second status request having been sent before the first was answered.\<close>

definition two_polls_out :: session where
  "two_polls_out = step one_poll_out Tick"

text \<open>The same, the status request having been answered with \<^verbatim>\<open>pending\<close>, 10 percent.\<close>

definition pending_J1 :: session where
  "pending_J1 = step one_poll_out (Settle 0 (StatusOk (remote_status ''pending'' 10 None)))"

text \<open>
  One status request for \<open>J1\<close> is out, the user cancels and the service confirms: the
  status request is still in flight.
\<close>

definition cancelled_J1 :: session where
  "cancelled_J1 = step (step one_poll_out ClickCancel) (Settle 1 DeleteOk)"

text \<open>After that, the user starts again with another file, accepted as job \<open>J2\<close>.\<close>

definition restarted_J2 :: session where
  "restarted_J2 =
     foldl step cancelled_J1 [ClickReset, Drop [second_csv], Settle 1 (UploadOk ''J2'')]"

section \<open>Properties\<close>

lemmas handler_defs =
  pollStatus_resolved_def pollStatus_rejected_def onDrop_reject_def onDrop_start_def
  onDrop_accepted_def onDrop_failed_def cancelUpload_resolved_def cancelUpload_rejected_def
  reset_def getHelp_def sizeHelper_onClose_def validation_onDismiss_def validation_onRetry_def
  testBackendConnection_resolved_def testBackendConnection_rejected_def

lemmas rendered_defs =
  cancel_rendered_def reset_rendered_def getHelp_rendered_def sizeHelper_rendered_def
  validation_rendered_def

lemmas session_defs =
  settle_def answers_def without_def onDrop_def begin_transfer_def cancelUpload_def tick_def
  click_def render_def useEffect_interval_def poll_guard_def truthy_def or_else_def

lemma polling_J1_eval:
  "vars polling_J1 = initial\<lparr>uploadedFile := Some csv_50MB, isUploading := True,
       uploadStatus := ''uploading'', uploadId := Some ''J1''\<rparr>"
  "interval polling_J1 = Some ''J1''"
  "in_flight polling_J1 = []"
  "effects polling_J1 = [AxiosPostUpload csv_50MB, ToastSuccess ''Upload started!'']"
  by (simp_all add: polling_J1_def run_def mount_def initial_def csv_50MB_def maxSize_def
        session_defs handler_defs)

lemma one_poll_out_eval:
  "vars one_poll_out = vars polling_J1"
  "interval one_poll_out = Some ''J1''"
  "in_flight one_poll_out = [PollStatus ''J1'']"
  "effects one_poll_out = effects polling_J1 @ [AxiosGetStatus ''J1'']"
  by (simp_all add: one_poll_out_def tick_def polling_J1_eval)

lemma two_polls_out_eval:
  "vars two_polls_out = vars polling_J1"
  "interval two_polls_out = Some ''J1''"
  "in_flight two_polls_out = [PollStatus ''J1'', PollStatus ''J1'']"
  "effects two_polls_out = effects polling_J1 @ [AxiosGetStatus ''J1'', AxiosGetStatus ''J1'']"
  by (simp_all add: two_polls_out_def tick_def one_poll_out_eval)

subsection \<open>Settling a status request\<close>

lemma settle_poll_ok:
  "k < length (in_flight s) \<Longrightarrow> in_flight s ! k = PollStatus j \<Longrightarrow>
   settle k (StatusOk p) s =
     render s (pollStatus_resolved j p (vars s)) (without k (in_flight s))"
  by (simp add: settle_def answers_def render_def)

lemma settle_poll_rejected:
  "k < length (in_flight s) \<Longrightarrow> in_flight s ! k = PollStatus j \<Longrightarrow>
   settle k (Rejected e) s =
     render s (pollStatus_rejected (vars s)) (without k (in_flight s))"
  by (simp add: settle_def answers_def render_def)

text \<open>
  Claim C10. When a status request is answered with a status that is neither
  \<^verbatim>\<open>"uploaded"\<close> nor \<^verbatim>\<open>"error"\<close>, \<^verbatim>\<open>uploadStatus\<close> becomes that very string of the
  payload; when the string is none of the five declared values, \<^verbatim>\<open>uploadStatus\<close> holds a
  value outside its declared type.
\<close>

theorem poll_assigns_raw_status:
  assumes "k < length (in_flight s)" and "in_flight s ! k = PollStatus j"
    and "status p \<noteq> ''uploaded''" and "status p \<noteq> ''error''"
  shows "uploadStatus (vars (step s (Settle k (StatusOk p)))) = status p
       \<and> (status p \<notin> declared_statuses \<longrightarrow>
            uploadStatus (vars (step s (Settle k (StatusOk p)))) \<notin> declared_statuses)"
  using assms by (simp add: settle_poll_ok render_def pollStatus_resolved_def)

theorem poll_assigns_raw_status_witness:
  "uploadStatus (vars (step one_poll_out (Settle 0 (StatusOk (remote_status ''pending'' 10 None)))))
     = ''pending''
   \<and> ''pending'' \<notin> declared_statuses
   \<and> uploadStatus (vars (step one_poll_out (Settle 0 (StatusOk (remote_status ''pending'' 10 None)))))
        \<notin> declared_statuses"
proof -
  have a: "0 < length (in_flight one_poll_out)" "in_flight one_poll_out ! 0 = PollStatus ''J1''"
    by (simp_all add: one_poll_out_eval)
  have b: "status (remote_status ''pending'' 10 None) \<noteq> ''uploaded''"
    "status (remote_status ''pending'' 10 None) \<noteq> ''error''"
    "status (remote_status ''pending'' 10 None) = ''pending''"
    by (simp_all add: remote_status_def)
  have c: "''pending'' \<notin> declared_statuses" by (simp add: declared_statuses_def)
  from poll_assigns_raw_status [OF a b(1,2)] b(3) c show ?thesis by simp
qed

subsection \<open>Ticks of the interval\<close>

lemma tick_with_interval:
  "interval s = Some j \<Longrightarrow>
   step s Tick = s\<lparr>in_flight := in_flight s @ [PollStatus j],
                     effects := effects s @ [AxiosGetStatus j]\<rparr>"
  by (simp add: tick_def)

lemma ticks_with_interval:
  "interval s = Some j \<Longrightarrow>
   foldl step s (replicate n Tick)
     = s\<lparr>in_flight := in_flight s @ replicate n (PollStatus j),
          effects := effects s @ replicate n (AxiosGetStatus j)\<rparr>"
proof (induction n arbitrary: s)
  case 0
  then show ?case by simp
next
  case (Suc n)
  have "interval (step s Tick) = Some j"
    using Suc.prems by (simp add: tick_def)
  from Suc.IH [OF this] Suc.prems show ?case
    by (simp add: tick_def replicate_app_Cons_same)
qed

text \<open>
  Claim C3 says that at most one status request is outstanding at a time. Two ticks of
  the interval with no answer in between leave two status requests in flight.
\<close>

theorem overlapping_polls_counterexample:
  "uploadStatus (vars polling_J1) = ''uploading''
   \<and> in_flight polling_J1 = []
   \<and> in_flight (step polling_J1 Tick) = [PollStatus ''J1'']
   \<and> in_flight (step (step polling_J1 Tick) Tick) = [PollStatus ''J1'', PollStatus ''J1'']
   \<and> outstanding_polls (step (step polling_J1 Tick) Tick) = 2
   \<and> effects (step (step polling_J1 Tick) Tick)
       = effects polling_J1 @ [AxiosGetStatus ''J1'', AxiosGetStatus ''J1'']"
  by (simp add: polling_J1_eval tick_def outstanding_polls_def is_poll_def)

text \<open>
  Claim C3, amended. A session has one interval, and each of its ticks sends one status
  request for the interval's upload id, whether or not earlier status requests are still
  outstanding: \<open>n\<close> ticks in a row add \<open>n\<close> outstanding status requests, and change neither the
  component state nor the interval.
\<close>

theorem every_tick_sends_a_request:
  assumes "interval s = Some j"
  shows "in_flight (step s Tick) = in_flight s @ [PollStatus j]
       \<and> effects (step s Tick) = effects s @ [AxiosGetStatus j]
       \<and> vars (step s Tick) = vars s
       \<and> interval (step s Tick) = Some j
       \<and> outstanding_polls (foldl step s (replicate n Tick)) = outstanding_polls s + n"
  using assms
  by (simp add: ticks_with_interval tick_with_interval[unfolded step.simps] outstanding_polls_def is_poll_def)

theorem every_tick_sends_a_request_witness:
  "interval one_poll_out = Some ''J1''
   \<and> in_flight one_poll_out = [PollStatus ''J1'']
   \<and> in_flight (step one_poll_out Tick) = [PollStatus ''J1'', PollStatus ''J1'']
   \<and> effects (step one_poll_out Tick) = effects one_poll_out @ [AxiosGetStatus ''J1'']
   \<and> outstanding_polls (foldl step one_poll_out (replicate 3 Tick)) = 4"
proof -
  have a: "interval one_poll_out = Some ''J1''"
    by (simp add: one_poll_out_eval)
  have b: "outstanding_polls one_poll_out = 1"
    by (simp add: outstanding_polls_def one_poll_out_eval is_poll_def)
  from every_tick_sends_a_request [OF a, of 3] a b show ?thesis
    by (simp add: one_poll_out_eval)
qed

subsection \<open>The timer follows the current upload id\<close>

lemma timer_current_render [simp]: "timer_current (render s r ps)"
  by (simp add: timer_current_def render_def)

lemma timer_current_click: "timer_current s \<Longrightarrow> timer_current (click b h s)"
  by (simp add: click_def)

lemma timer_current_step: "timer_current s \<Longrightarrow> timer_current (step s ev)"
proof (cases ev)
  case Tick
  assume "timer_current s"
  then show ?thesis using Tick
    by (simp add: tick_def timer_current_def split: option.splits)
next
  case (Drop fs)
  assume "timer_current s"
  then show ?thesis using Drop
    by (auto simp: onDrop_def begin_transfer_def cancelUpload_def timer_current_def[of "_\<lparr>in_flight := _, effects := _\<rparr>"]
        timer_current_def[of s] split: list.splits option.splits if_splits)
next
  case ClickCancel
  assume "timer_current s"
  then show ?thesis using ClickCancel
    by (auto simp: cancelUpload_def timer_current_def split: option.splits)
next
  case (Settle k r)
  assume tc: "timer_current s"
  have "timer_current (resume q r s')" if "timer_current s'" for q s'
    using that by (cases "(q, r, s')" rule: resume.cases)
      (simp_all add: begin_transfer_def Let_def split: option.splits)
  moreover have "timer_current (s\<lparr>in_flight := xs\<rparr>)" for xs
    using tc by (simp add: timer_current_def)
  ultimately show ?thesis using Settle tc
    by (simp add: settle_def)
next
  case ClickTestBackend
  assume "timer_current s"
  then show ?thesis using ClickTestBackend by (simp add: timer_current_def)
qed (simp_all add: timer_current_click)

lemma timer_current_foldl: "timer_current s \<Longrightarrow> timer_current (foldl step s evs)"
  by (induction evs arbitrary: s) (simp_all add: timer_current_step)

lemma timer_current_run: "timer_current (run evs)"
  unfolding run_def by (rule timer_current_foldl) (simp add: timer_current_def mount_def useEffect_interval_def poll_guard_def initial_def truthy_def)

subsection \<open>The size check\<close>

lemma digit_value_digit: "d < 10 \<Longrightarrow> digit_value (digit d) = Some d"
proof -
  assume "d < 10"
  then have "d = 0 \<or> d = 1 \<or> d = 2 \<or> d = 3 \<or> d = 4 \<or> d = 5 \<or> d = 6 \<or> d = 7 \<or> d = 8 \<or> d = 9"
    by arith
  then show ?thesis
    by (elim disjE) (simp_all add: digit_def digit_value_def)
qed

lemma value_rev_show_nat: "value_rev (rev (show_nat n)) = Some n"
proof (induction n rule: show_nat.induct)
  case (1 n)
  show ?case
  proof (cases "n < 10")
    case True
    then show ?thesis
      by (simp add: show_nat.simps [of n] digit_value_digit)
  next
    case False
    then have "value_rev (rev (show_nat (n div 10))) = Some (n div 10)"
      by (rule "1.IH")
    with False show ?thesis
      by (simp add: show_nat.simps [of n] digit_value_digit)
  qed
qed

lemma show_nat_nonempty: "show_nat n \<noteq> []"
  by (simp add: show_nat.simps [of n])

lemma read_nat_show_nat: "read_nat (show_nat n) = Some n"
  by (simp add: read_nat_def show_nat_nonempty value_rev_show_nat)

lemma read_nat_two_digits:
  "a < 10 \<Longrightarrow> b < 10 \<Longrightarrow> read_nat [digit a, digit b] = Some (10 * a + b)"
  by (simp add: read_nat_def digit_value_digit)


lemma two_digit_fraction:
  "read_nat [digit ((n mod 100) div 10), digit (n mod 10)] = Some (n mod 100)"
proof -
  have a: "(n mod 100) div 10 < 10"
    by (simp add: div_less_iff_less_mult)
  have b: "n mod 10 < 10" by simp
  have "n mod 10 = (n mod 100) mod 10"
    by (simp add: mod_mod_cancel)
  then have c: "10 * ((n mod 100) div 10) + n mod 10 = n mod 100"
    by (simp only: mult_div_mod_eq)
  show ?thesis
    using read_nat_two_digits [OF a b] c by simp
qed


lemma too_large_2GB:
  "too_large_message (2 * 1024 * 1024 * 1024) = ''File too large: 2048.00MB. Maximum size is 1024MB.''"
  by (simp add: too_large_message_def toFixed2_MB_def toFixed0_MB_def maxSize_def
        show_nat.simps digit_def)

lemma limit_text: "toFixed0_MB maxSize = ''1024''"
  by (simp add: toFixed0_MB_def maxSize_def show_nat.simps digit_def)

lemma toFixed2_MB_carries_size:
  "\<exists>w fr. toFixed2_MB b = w @ ''.'' @ fr \<and> length fr = 2
     \<and> read_nat w = Some (((200 * b + 1024 * 1024) div (2 * 1024 * 1024)) div 100)
     \<and> read_nat fr = Some (((200 * b + 1024 * 1024) div (2 * 1024 * 1024)) mod 100)"
proof (intro exI conjI)
  show "toFixed2_MB b
          = show_nat (((200 * b + 1024 * 1024) div (2 * 1024 * 1024)) div 100) @ ''.''
            @ [digit ((((200 * b + 1024 * 1024) div (2 * 1024 * 1024)) mod 100) div 10),
               digit (((200 * b + 1024 * 1024) div (2 * 1024 * 1024)) mod 10)]"
    by (simp add: toFixed2_MB_def Let_def)
  show "length [digit ((((200 * b + 1024 * 1024) div (2 * 1024 * 1024)) mod 100) div 10),
               digit (((200 * b + 1024 * 1024) div (2 * 1024 * 1024)) mod 10)] = 2"
    by simp
  show "read_nat (show_nat (((200 * b + 1024 * 1024) div (2 * 1024 * 1024)) div 100))
          = Some (((200 * b + 1024 * 1024) div (2 * 1024 * 1024)) div 100)"
    by (rule read_nat_show_nat)
  show "read_nat [digit ((((200 * b + 1024 * 1024) div (2 * 1024 * 1024)) mod 100) div 10),
               digit (((200 * b + 1024 * 1024) div (2 * 1024 * 1024)) mod 10)]
          = Some (((200 * b + 1024 * 1024) div (2 * 1024 * 1024)) mod 100)"
    by (rule two_digit_fraction)
qed

text \<open>
  Claim C4. For every file larger than \<open>maxSize\<close>, \<^verbatim>\<open>onDrop\<close> sets the status to
  \<^verbatim>\<open>"error"\<close>, keeps the file as \<^verbatim>\<open>rejectedFile\<close>, shows the size helper and a toast
  with the error message; it sends no request, leaves \<^verbatim>\<open>uploadId\<close> as it was, and no
  interval is set afterwards. For a size a \<^verbatim>\<open>File\<close> can report exactly, the message is
  "File too large: \<open>w\<close>.\<open>fr\<close>MB. Maximum size is 1024MB.", where the digits \<open>w\<close> and the two
  digits \<open>fr\<close> are the file's size in hundredths of a megabyte, rounded half up, and 1024
  megabytes are the limit.
\<close>

theorem oversized_file_rejected:
  assumes "size_bytes f > maxSize"
  shows "uploadStatus (vars (step s (Drop (f # fs)))) = ''error''
       \<and> rejectedFile (vars (step s (Drop (f # fs)))) = Some f
       \<and> showSizeHelper (vars (step s (Drop (f # fs)))) = True
       \<and> uploadId (vars (step s (Drop (f # fs)))) = uploadId (vars s)
       \<and> in_flight (step s (Drop (f # fs))) = in_flight s
       \<and> (\<exists>m. error (vars (step s (Drop (f # fs)))) = Some m
              \<and> effects (step s (Drop (f # fs))) = effects s @ [ToastError m])
       \<and> interval (step s (Drop (f # fs))) = None
       \<and> maxSize = 1024 * (1024 * 1024)
       \<and> (size_bytes f < 2 ^ 53 \<longrightarrow>
            (\<exists>w fr. error (vars (step s (Drop (f # fs))))
                       = Some (''File too large: '' @ w @ ''.'' @ fr
                               @ ''MB. Maximum size is 1024MB.'')
                 \<and> length fr = 2
                 \<and> read_nat w
                     = Some (((200 * size_bytes f + 1024 * 1024) div (2 * 1024 * 1024)) div 100)
                 \<and> read_nat fr
                     = Some (((200 * size_bytes f + 1024 * 1024) div (2 * 1024 * 1024)) mod 100)))"
proof -
  obtain w fr where t: "toFixed2_MB (size_bytes f) = w @ ''.'' @ fr" "length fr = 2"
    "read_nat w = Some (((200 * size_bytes f + 1024 * 1024) div (2 * 1024 * 1024)) div 100)"
    "read_nat fr = Some (((200 * size_bytes f + 1024 * 1024) div (2 * 1024 * 1024)) mod 100)"
    using toFixed2_MB_carries_size by blast
  have e: "error (vars (step s (Drop (f # fs))))
             = Some (''File too large: '' @ w @ ''.'' @ fr @ ''MB. Maximum size is 1024MB.'')"
    using assms
    by (simp add: onDrop_def render_def onDrop_reject_def too_large_message_def limit_text t(1))
  have "\<exists>w fr. error (vars (step s (Drop (f # fs))))
                       = Some (''File too large: '' @ w @ ''.'' @ fr
                               @ ''MB. Maximum size is 1024MB.'')
                 \<and> length fr = 2
                 \<and> read_nat w
                     = Some (((200 * size_bytes f + 1024 * 1024) div (2 * 1024 * 1024)) div 100)
                 \<and> read_nat fr
                     = Some (((200 * size_bytes f + 1024 * 1024) div (2 * 1024 * 1024)) mod 100)"
    using e t(2,3,4) by blast
  moreover have "uploadStatus (vars (step s (Drop (f # fs)))) = ''error''
       \<and> rejectedFile (vars (step s (Drop (f # fs)))) = Some f
       \<and> showSizeHelper (vars (step s (Drop (f # fs)))) = True
       \<and> uploadId (vars (step s (Drop (f # fs)))) = uploadId (vars s)
       \<and> in_flight (step s (Drop (f # fs))) = in_flight s
       \<and> (\<exists>m. error (vars (step s (Drop (f # fs)))) = Some m
              \<and> effects (step s (Drop (f # fs))) = effects s @ [ToastError m])
       \<and> interval (step s (Drop (f # fs))) = None"
    using assms
    by (simp add: onDrop_def render_def onDrop_reject_def useEffect_interval_def poll_guard_def)
  moreover have "maxSize = 1024 * (1024 * 1024)"
    by (simp add: maxSize_def)
  ultimately show ?thesis by blast
qed

theorem oversized_file_rejected_witness:
  "size_bytes csv_2GB > maxSize \<and> size_bytes csv_2GB < 2 ^ 53
   \<and> uploadStatus (vars (step mount (Drop [csv_2GB]))) = ''error''
   \<and> error (vars (step mount (Drop [csv_2GB])))
       = Some ''File too large: 2048.00MB. Maximum size is 1024MB.''
   \<and> read_nat ''2048'' = Some (((200 * size_bytes csv_2GB + 1024 * 1024) div (2 * 1024 * 1024)) div 100)
   \<and> read_nat ''00'' = Some (((200 * size_bytes csv_2GB + 1024 * 1024) div (2 * 1024 * 1024)) mod 100)
   \<and> rejectedFile (vars (step mount (Drop [csv_2GB]))) = Some csv_2GB
   \<and> uploadId (vars (step mount (Drop [csv_2GB]))) = None
   \<and> in_flight (step mount (Drop [csv_2GB])) = []
   \<and> effects (step mount (Drop [csv_2GB]))
       = [ToastError ''File too large: 2048.00MB. Maximum size is 1024MB.'']"
proof -
  have a: "size_bytes csv_2GB > maxSize"
    by (simp add: csv_2GB_def maxSize_def)
  have b: "size_bytes csv_2GB < 2 ^ 53"
    by (simp add: csv_2GB_def)
  have c: "error (vars (step mount (Drop [csv_2GB])))
             = Some ''File too large: 2048.00MB. Maximum size is 1024MB.''"
    using too_large_2GB
    by (simp add: onDrop_def render_def onDrop_reject_def csv_2GB_def maxSize_def)
  have d: "read_nat ''2048'' = Some (((200 * size_bytes csv_2GB + 1024 * 1024) div (2 * 1024 * 1024)) div 100)"
    "read_nat ''00'' = Some (((200 * size_bytes csv_2GB + 1024 * 1024) div (2 * 1024 * 1024)) mod 100)"
    by (simp_all add: read_nat_def digit_value_def csv_2GB_def)
  from oversized_file_rejected [OF a, of mount "[]"] a b c d show ?thesis
    by (auto simp: mount_def initial_def)
qed

subsection \<open>Cancelling\<close>

lemma pending_J1_eval:
  "vars pending_J1 = initial\<lparr>uploadedFile := Some csv_50MB, isUploading := True,
       uploadStatus := ''pending'', uploadId := Some ''J1'', uploadProgress := 10\<rparr>"
  "interval pending_J1 = Some ''J1''"
  "in_flight pending_J1 = []"
  "effects pending_J1 = effects one_poll_out"
  by (simp_all add: pending_J1_def one_poll_out_eval polling_J1_eval initial_def
        remote_status_def session_defs handler_defs)

lemma click_cancel:
  "uploadId (vars s) = Some j \<Longrightarrow> j \<noteq> [] \<Longrightarrow> uploadStatus (vars s) = ''uploading'' \<Longrightarrow>
   step s ClickCancel = s\<lparr>in_flight := in_flight s @ [CancelUpload j None],
                            effects := effects s @ [AxiosDelete j]\<rparr>"
  by (simp add: cancelUpload_def cancel_rendered_def)

lemma drop_while_uploading:
  "uploadId (vars s) = Some j \<Longrightarrow> j \<noteq> [] \<Longrightarrow> uploadStatus (vars s) = ''uploading'' \<Longrightarrow>
   size_bytes f \<le> maxSize \<Longrightarrow>
   onDrop (f # fs) s = s\<lparr>in_flight := in_flight s @ [CancelUpload j (Some f)],
                          effects := effects s @ [AxiosDelete j]\<rparr>"
  by (simp add: onDrop_def cancelUpload_def truthy_def)

lemma settle_last:
  "settle (length qs) r (s\<lparr>in_flight := qs @ [q], effects := es\<rparr>)
     = (if answers q r then resume q r (s\<lparr>effects := es, in_flight := qs\<rparr>)
        else s\<lparr>in_flight := qs @ [q], effects := es\<rparr>)"
  by (simp add: settle_def without_def)

text \<open>
  Claim C2 says that cancel stops the timer and sets the state to cancelled before the
  remote request is sent, and that the state stays cancelled when the request fails. In
  the code the request is sent first: once it is out, the status is still
  \<^verbatim>\<open>"uploading"\<close> and the interval is still set; when the request fails they stay so, and
  the next tick polls again.
\<close>

theorem cancel_not_optimistic_counterexample:
  "uploadStatus (vars polling_J1) = ''uploading''
   \<and> interval polling_J1 = Some ''J1''
   \<and> effects (step polling_J1 ClickCancel) = effects polling_J1 @ [AxiosDelete ''J1'']
   \<and> uploadStatus (vars (step polling_J1 ClickCancel)) = ''uploading''
   \<and> interval (step polling_J1 ClickCancel) = Some ''J1''
   \<and> uploadStatus (vars (step (step polling_J1 ClickCancel) (Settle 0 (Rejected network_down))))
       = ''uploading''
   \<and> interval (step (step polling_J1 ClickCancel) (Settle 0 (Rejected network_down)))
       = Some ''J1''
   \<and> effects (step (step (step polling_J1 ClickCancel) (Settle 0 (Rejected network_down))) Tick)
       = effects polling_J1 @
         [AxiosDelete ''J1'', ConsoleError ''Cancel upload error:'',
          ToastError ''Failed to cancel upload'', AxiosGetStatus ''J1'']"
  by (simp add: polling_J1_eval initial_def session_defs handler_defs rendered_defs)

lemma settle_cancel_failed:
  "k < length (in_flight s) \<Longrightarrow> in_flight s ! k = CancelUpload j c \<Longrightarrow>
   settle k (Rejected e) s
     = (case c of
          None \<Rightarrow> render s (cancelUpload_rejected (vars s)) (without k (in_flight s))
        | Some f \<Rightarrow>
            begin_transfer f (render s (cancelUpload_rejected (vars s)) (without k (in_flight s))))"
  by (simp add: settle_def answers_def render_def split: option.splits)

lemma settle_cancel_done:
  "k < length (in_flight s) \<Longrightarrow> in_flight s ! k = CancelUpload j c \<Longrightarrow>
   settle k DeleteOk s
     = (case c of
          None \<Rightarrow> render s (cancelUpload_resolved (vars s)) (without k (in_flight s))
        | Some f \<Rightarrow>
            begin_transfer f (render s (cancelUpload_resolved (vars s)) (without k (in_flight s))))"
  by (simp add: settle_def answers_def render_def split: option.splits)

text \<open>
  Claim C2, amended. For every invocation of \<^verbatim>\<open>cancelUpload\<close> while an upload id is held
  (by the cancel button, or by \<^verbatim>\<open>onDrop\<close> before a new transfer; both need the status
  \<^verbatim>\<open>"uploading"\<close>), the remote cancel request is sent first and the component state and
  the interval are left as they are. When the request succeeds, whenever that is,
  \<^verbatim>\<open>cancelUpload\<close> sets the status \<^verbatim>\<open>"cancelled"\<close>, \<^verbatim>\<open>isUploading\<close> false and the progress
  0: after the button that is the resulting state and the interval is cleared; inside
  \<^verbatim>\<open>onDrop\<close> the new transfer starts in the same step, so the resulting status is
  \<^verbatim>\<open>"uploading"\<close> and the interval runs for the upload id still held. When the request
  fails, \<^verbatim>\<open>cancelUpload\<close> changes no state and logs and toasts the failure: after the
  button the state and the interval are unchanged (not cancelled, polling goes on); inside
  \<^verbatim>\<open>onDrop\<close> the new transfer starts all the same.
\<close>

theorem cancel_waits_for_remote:
  assumes "uploadId (vars s) = Some j" and "j \<noteq> []"
    and "uploadStatus (vars s) = ''uploading''" and "size_bytes f \<le> maxSize"
    and "n < length (in_flight t)" and "in_flight t ! n = CancelUpload i c"
    and "timer_current t"
  shows "step s ClickCancel
           = s\<lparr>in_flight := in_flight s @ [CancelUpload j None],
                effects := effects s @ [AxiosDelete j]\<rparr>
       \<and> step s (Drop (f # fs))
           = s\<lparr>in_flight := in_flight s @ [CancelUpload j (Some f)],
                effects := effects s @ [AxiosDelete j]\<rparr>
       \<and> vars (step t (Settle n DeleteOk))
           = (case c of
                None \<Rightarrow>
                  (vars t)\<lparr>uploadStatus := ''cancelled'', isUploading := False,
                    uploadProgress := 0\<rparr>
              | Some g \<Rightarrow>
                  (vars t)\<lparr>uploadStatus := ''uploading'', isUploading := True,
                    uploadProgress := 0, uploadedFile := Some g, error := None,
                    validationErrors := [], validationWarnings := [], showValidation := False\<rparr>)
       \<and> interval (step t (Settle n DeleteOk))
           = (case c of
                None \<Rightarrow> None
              | Some g \<Rightarrow> if truthy (uploadId (vars t)) then uploadId (vars t) else None)
       \<and> effects (step t (Settle n DeleteOk))
           = effects t @
             (case c of
                None \<Rightarrow> [ToastPlain ''Upload cancelled'']
              | Some g \<Rightarrow> [ToastPlain ''Upload cancelled'', AxiosPostUpload g])
       \<and> vars (step t (Settle n (Rejected e)))
           = (case c of
                None \<Rightarrow> vars t
              | Some g \<Rightarrow>
                  (vars t)\<lparr>uploadStatus := ''uploading'', isUploading := True,
                    uploadProgress := 0, uploadedFile := Some g, error := None,
                    validationErrors := [], validationWarnings := [], showValidation := False\<rparr>)
       \<and> interval (step t (Settle n (Rejected e)))
           = (case c of
                None \<Rightarrow> interval t
              | Some g \<Rightarrow> if truthy (uploadId (vars t)) then uploadId (vars t) else None)
       \<and> effects (step t (Settle n (Rejected e)))
           = effects t @
             (case c of
                None \<Rightarrow>
                  [ConsoleError ''Cancel upload error:'', ToastError ''Failed to cancel upload'']
              | Some g \<Rightarrow>
                  [ConsoleError ''Cancel upload error:'', ToastError ''Failed to cancel upload'',
                   AxiosPostUpload g])"
proof -
  have b: "step s ClickCancel
           = s\<lparr>in_flight := in_flight s @ [CancelUpload j None],
                effects := effects s @ [AxiosDelete j]\<rparr>"
    using assms(1-3) by (rule click_cancel)
  have d: "step s (Drop (f # fs))
           = s\<lparr>in_flight := in_flight s @ [CancelUpload j (Some f)],
                effects := effects s @ [AxiosDelete j]\<rparr>"
    using drop_while_uploading [OF assms(1-4)] by simp
  have ok: "vars (settle n DeleteOk t)
           = (case c of
                None \<Rightarrow>
                  (vars t)\<lparr>uploadStatus := ''cancelled'', isUploading := False,
                    uploadProgress := 0\<rparr>
              | Some g \<Rightarrow>
                  (vars t)\<lparr>uploadStatus := ''uploading'', isUploading := True,
                    uploadProgress := 0, uploadedFile := Some g, error := None,
                    validationErrors := [], validationWarnings := [], showValidation := False\<rparr>)
       \<and> interval (settle n DeleteOk t)
           = (case c of
                None \<Rightarrow> None
              | Some g \<Rightarrow> if truthy (uploadId (vars t)) then uploadId (vars t) else None)
       \<and> effects (settle n DeleteOk t)
           = effects t @
             (case c of
                None \<Rightarrow> [ToastPlain ''Upload cancelled'']
              | Some g \<Rightarrow> [ToastPlain ''Upload cancelled'', AxiosPostUpload g])"
    by (simp add: settle_cancel_done [OF assms(5,6)] render_def begin_transfer_def
          cancelUpload_resolved_def onDrop_start_def useEffect_interval_def poll_guard_def
          split: option.splits)
  have no: "vars (settle n (Rejected e) t)
           = (case c of
                None \<Rightarrow> vars t
              | Some g \<Rightarrow>
                  (vars t)\<lparr>uploadStatus := ''uploading'', isUploading := True,
                    uploadProgress := 0, uploadedFile := Some g, error := None,
                    validationErrors := [], validationWarnings := [], showValidation := False\<rparr>)
       \<and> interval (settle n (Rejected e) t)
           = (case c of
                None \<Rightarrow> interval t
              | Some g \<Rightarrow> if truthy (uploadId (vars t)) then uploadId (vars t) else None)
       \<and> effects (settle n (Rejected e) t)
           = effects t @
             (case c of
                None \<Rightarrow>
                  [ConsoleError ''Cancel upload error:'', ToastError ''Failed to cancel upload'']
              | Some g \<Rightarrow>
                  [ConsoleError ''Cancel upload error:'', ToastError ''Failed to cancel upload'',
                   AxiosPostUpload g])"
    using assms(7)
    by (simp add: settle_cancel_failed [OF assms(5,6)] render_def begin_transfer_def
          cancelUpload_rejected_def onDrop_start_def useEffect_interval_def poll_guard_def
          timer_current_def split: option.splits)
  show ?thesis
    using b d ok no by (simp del: step.simps) simp
qed

theorem cancel_waits_for_remote_witness:
  "uploadId (vars polling_J1) = Some ''J1'' \<and> ''J1'' \<noteq> []
   \<and> uploadStatus (vars polling_J1) = ''uploading'' \<and> size_bytes second_csv \<le> maxSize
   \<and> 0 < length (in_flight (step polling_J1 ClickCancel))
   \<and> in_flight (step polling_J1 ClickCancel) ! 0 = CancelUpload ''J1'' None
   \<and> timer_current (step polling_J1 ClickCancel)
   \<and> 0 < length (in_flight (step polling_J1 (Drop [second_csv])))
   \<and> in_flight (step polling_J1 (Drop [second_csv])) ! 0 = CancelUpload ''J1'' (Some second_csv)
   \<and> timer_current (step polling_J1 (Drop [second_csv]))
   \<and> uploadStatus (vars (step polling_J1 ClickCancel)) = ''uploading''
   \<and> interval (step polling_J1 ClickCancel) = Some ''J1''
   \<and> effects (step polling_J1 ClickCancel) = effects polling_J1 @ [AxiosDelete ''J1'']
   \<and> uploadStatus (vars (step (step polling_J1 ClickCancel) (Settle 0 DeleteOk))) = ''cancelled''
   \<and> interval (step (step polling_J1 ClickCancel) (Settle 0 DeleteOk)) = None
   \<and> uploadStatus (vars (step (step polling_J1 ClickCancel) (Settle 0 (Rejected network_down))))
       = ''uploading''
   \<and> interval (step (step polling_J1 ClickCancel) (Settle 0 (Rejected network_down)))
       = Some ''J1''
   \<and> effects (step polling_J1 (Drop [second_csv])) = effects polling_J1 @ [AxiosDelete ''J1'']
   \<and> uploadStatus (vars (step (step polling_J1 (Drop [second_csv])) (Settle 0 DeleteOk)))
       = ''uploading''
   \<and> interval (step (step polling_J1 (Drop [second_csv])) (Settle 0 DeleteOk)) = Some ''J1''
   \<and> effects (step (step polling_J1 (Drop [second_csv])) (Settle 0 (Rejected network_down)))
       = effects polling_J1 @
         [AxiosDelete ''J1'', ConsoleError ''Cancel upload error:'',
          ToastError ''Failed to cancel upload'', AxiosPostUpload second_csv]"
proof -
  have a: "uploadId (vars polling_J1) = Some ''J1''" "''J1'' \<noteq> []"
    "uploadStatus (vars polling_J1) = ''uploading''"
    by (simp_all add: polling_J1_eval)
  have p: "timer_current polling_J1"
    unfolding polling_J1_def by (rule timer_current_run)
  have c: "size_bytes second_csv \<le> maxSize"
    by (simp add: second_csv_def maxSize_def)
  have b: "step polling_J1 ClickCancel
             = polling_J1\<lparr>in_flight := [CancelUpload ''J1'' None],
                 effects := effects polling_J1 @ [AxiosDelete ''J1'']\<rparr>"
    using click_cancel [OF a] by (simp add: polling_J1_eval del: step.simps)
  have d: "step polling_J1 (Drop [second_csv])
             = polling_J1\<lparr>in_flight := [CancelUpload ''J1'' (Some second_csv)],
                 effects := effects polling_J1 @ [AxiosDelete ''J1'']\<rparr>"
    using drop_while_uploading [OF a c, of "[]"] by (simp add: polling_J1_eval)
  have tb: "0 < length (in_flight (step polling_J1 ClickCancel))"
    "in_flight (step polling_J1 ClickCancel) ! 0 = CancelUpload ''J1'' None"
    "timer_current (step polling_J1 ClickCancel)"
    using p by (simp_all add: b timer_current_def del: step.simps)
  have td: "0 < length (in_flight (step polling_J1 (Drop [second_csv])))"
    "in_flight (step polling_J1 (Drop [second_csv])) ! 0 = CancelUpload ''J1'' (Some second_csv)"
    "timer_current (step polling_J1 (Drop [second_csv]))"
    using p by (simp_all add: d timer_current_def del: step.simps)
  note t1 = cancel_waits_for_remote [OF a c tb, of "[]" network_down]
  note t2 = cancel_waits_for_remote [OF a c td, of "[]" network_down]
  have v: "vars (step polling_J1 ClickCancel) = vars polling_J1"
    "interval (step polling_J1 ClickCancel) = Some ''J1''"
    "effects (step polling_J1 ClickCancel) = effects polling_J1 @ [AxiosDelete ''J1'']"
    "vars (step polling_J1 (Drop [second_csv])) = vars polling_J1"
    "effects (step polling_J1 (Drop [second_csv])) = effects polling_J1 @ [AxiosDelete ''J1'']"
    by (simp_all add: b d polling_J1_eval del: step.simps)
  have r1: "uploadStatus (vars (step (step polling_J1 ClickCancel) (Settle 0 DeleteOk))) = ''cancelled''
     \<and> interval (step (step polling_J1 ClickCancel) (Settle 0 DeleteOk)) = None
     \<and> uploadStatus (vars (step (step polling_J1 ClickCancel) (Settle 0 (Rejected network_down))))
         = ''uploading''
     \<and> interval (step (step polling_J1 ClickCancel) (Settle 0 (Rejected network_down)))
         = Some ''J1''"
    using t1 by (elim conjE) (simp add: v polling_J1_eval del: step.simps)
  have r2: "uploadStatus (vars (step (step polling_J1 (Drop [second_csv])) (Settle 0 DeleteOk)))
       = ''uploading''
     \<and> interval (step (step polling_J1 (Drop [second_csv])) (Settle 0 DeleteOk)) = Some ''J1''
     \<and> effects (step (step polling_J1 (Drop [second_csv])) (Settle 0 (Rejected network_down)))
       = effects polling_J1 @
         [AxiosDelete ''J1'', ConsoleError ''Cancel upload error:'',
          ToastError ''Failed to cancel upload'', AxiosPostUpload second_csv]"
    using t2 by (elim conjE) (simp add: v polling_J1_eval truthy_def del: step.simps)
  show ?thesis
    using a c tb td v r1 r2 by (simp add: polling_J1_eval del: step.simps)
qed

subsection \<open>A new file while an upload is running\<close>

text \<open>
  Claim C5: a new file selected while the session holds a job id and is transferring or
  polling must first cancel the existing job. The code attempts this (the comment "If
  there's an existing upload, replace it", the guard and \<^verbatim>\<open>await cancelUpload()\<close>) and
  does it while \<^verbatim>\<open>uploadStatus\<close> is \<^verbatim>\<open>"uploading"\<close>; but once a status answer has stored
  \<^verbatim>\<open>"pending"\<close>, with \<open>J1\<close> held and the poller running, the guard is false: \<^verbatim>\<open>onDrop\<close>
  posts the new file at once and sends no cancel request for \<open>J1\<close>.
\<close>

theorem drop_while_pending_sends_no_cancel:
  "uploadId (vars pending_J1) = Some ''J1''
   \<and> uploadStatus (vars pending_J1) = ''pending''
   \<and> interval pending_J1 = Some ''J1''
   \<and> size_bytes second_csv \<le> maxSize
   \<and> effects (step pending_J1 (Drop [second_csv]))
       = effects pending_J1 @ [AxiosPostUpload second_csv]
   \<and> in_flight (step pending_J1 (Drop [second_csv])) = [StartUpload second_csv]
   \<and> AxiosDelete ''J1'' \<notin> set (effects (step pending_J1 (Drop [second_csv])))
   \<and> uploadId (vars one_poll_out) = Some ''J1''
   \<and> uploadStatus (vars one_poll_out) = ''uploading''
   \<and> effects (step one_poll_out (Drop [second_csv]))
       = effects one_poll_out @ [AxiosDelete ''J1'']"
  by (simp add: pending_J1_eval one_poll_out_eval polling_J1_eval initial_def second_csv_def
        maxSize_def session_defs handler_defs)

subsection \<open>The upload id after a cancellation\<close>

lemma cancelled_J1_eval:
  "vars cancelled_J1 = initial\<lparr>uploadedFile := Some csv_50MB, isUploading := False,
       uploadStatus := ''cancelled'', uploadId := Some ''J1''\<rparr>"
  "interval cancelled_J1 = None"
  "in_flight cancelled_J1 = [PollStatus ''J1'']"
  "effects cancelled_J1 = effects one_poll_out @ [AxiosDelete ''J1'', ToastPlain ''Upload cancelled'']"
  by (simp_all add: cancelled_J1_def one_poll_out_eval polling_J1_eval initial_def
        session_defs handler_defs rendered_defs)

lemma restarted_J2_eval:
  "vars restarted_J2 = initial\<lparr>uploadedFile := Some second_csv, isUploading := True,
       uploadStatus := ''uploading'', uploadId := Some ''J2''\<rparr>"
  "interval restarted_J2 = Some ''J2''"
  "in_flight restarted_J2 = [PollStatus ''J1'']"
  by (simp_all add: restarted_J2_def cancelled_J1_eval initial_def second_csv_def maxSize_def
        session_defs handler_defs rendered_defs)

lemma uploadId_resume:
  "uploadId (vars (resume q r s)) =
     (case r of UploadOk i \<Rightarrow> if is_upload q then Some i else uploadId (vars s)
      | _ \<Rightarrow> uploadId (vars s))"
  by (cases "(q, r, s)" rule: resume.cases)
     (simp_all add: is_upload_def render_def begin_transfer_def Let_def handler_defs
        split: option.splits prod.splits)

lemma uploadId_step:
  "uploadId (vars (step s ev)) =
     (case ev of
        ClickReset \<Rightarrow> if reset_rendered (vars s) then None else uploadId (vars s)
      | Settle k r \<Rightarrow>
          (case r of
             UploadOk i \<Rightarrow>
               if k < length (in_flight s) \<and> is_upload (in_flight s ! k) then Some i
               else uploadId (vars s)
           | _ \<Rightarrow> uploadId (vars s))
      | _ \<Rightarrow> uploadId (vars s))"
proof (cases ev)
  case (Drop fs)
  then show ?thesis
    by (simp add: onDrop_def begin_transfer_def cancelUpload_def render_def handler_defs
          split: list.splits option.splits)
next
  case ClickCancel
  then show ?thesis
    by (simp add: cancelUpload_def split: option.splits)
next
  case (Settle k r)
  then show ?thesis
    by (cases r) (auto simp: settle_def uploadId_resume answers_def is_upload_def
          split: pending.splits)
qed (simp_all add: click_def render_def tick_def handler_defs split: option.splits)

lemma settle_cancel_ok:
  "k < length (in_flight s) \<Longrightarrow> in_flight s ! k = CancelUpload j c \<Longrightarrow>
   settle k DeleteOk s
     = (case c of
          None \<Rightarrow> render s (cancelUpload_resolved (vars s)) (without k (in_flight s))
        | Some f \<Rightarrow>
            begin_transfer f (render s (cancelUpload_resolved (vars s)) (without k (in_flight s))))"
  by (simp add: settle_def answers_def render_def split: option.splits)

text \<open>
  Claim C8 says that a completed cancellation clears the job id and that a following
  start does not reuse it. After the cancellation of \<open>J1\<close> has completed, \<^verbatim>\<open>uploadId\<close> is
  still \<open>J1\<close>; a file dropped then starts a transfer during which the interval is set for
  \<open>J1\<close> again, and its tick asks for the status of \<open>J1\<close>.
\<close>

theorem cancel_keeps_upload_id_counterexample:
  "uploadStatus (vars cancelled_J1) = ''cancelled''
   \<and> uploadId (vars cancelled_J1) = Some ''J1''
   \<and> uploadId (vars (step cancelled_J1 (Drop [second_csv]))) = Some ''J1''
   \<and> uploadStatus (vars (step cancelled_J1 (Drop [second_csv]))) = ''uploading''
   \<and> interval (step cancelled_J1 (Drop [second_csv])) = Some ''J1''
   \<and> effects (step (step cancelled_J1 (Drop [second_csv])) Tick)
       = effects cancelled_J1 @ [AxiosPostUpload second_csv, AxiosGetStatus ''J1'']"
  by (simp add: cancelled_J1_eval initial_def second_csv_def maxSize_def
        session_defs handler_defs)

text \<open>
  Claim C8, amended. After every completed cancellation the session holds the upload id
  it held before: \<^verbatim>\<open>cancelUpload\<close> does not clear it. When the cancel button made the
  request, the session is then cancelled (progress 0, \<^verbatim>\<open>isUploading\<close> false, no interval);
  when \<^verbatim>\<open>onDrop\<close> made it, the new transfer starts at once under the old id. The upload id
  changes in two ways only: a click on a rendered reset button makes it absent, and the
  answer accepting an upload replaces it by the id the remote service returns; every
  other event leaves it as it is.
\<close>

theorem cancel_keeps_upload_id:
  "uploadId (vars (step s ev)) =
     (case ev of
        ClickReset \<Rightarrow> if reset_rendered (vars s) then None else uploadId (vars s)
      | Settle k r \<Rightarrow>
          (case r of
             UploadOk i \<Rightarrow>
               if k < length (in_flight s) \<and> is_upload (in_flight s ! k) then Some i
               else uploadId (vars s)
           | _ \<Rightarrow> uploadId (vars s))
      | _ \<Rightarrow> uploadId (vars s))
   \<and> (n < length (in_flight s) \<and> in_flight s ! n = CancelUpload j c \<longrightarrow>
        uploadId (vars (step s (Settle n DeleteOk))) = uploadId (vars s)
      \<and> (case c of
            None \<Rightarrow>
              uploadStatus (vars (step s (Settle n DeleteOk))) = ''cancelled''
              \<and> uploadProgress (vars (step s (Settle n DeleteOk))) = 0
              \<and> isUploading (vars (step s (Settle n DeleteOk))) = False
              \<and> interval (step s (Settle n DeleteOk)) = None
          | Some f \<Rightarrow>
              uploadStatus (vars (step s (Settle n DeleteOk))) = ''uploading''
              \<and> uploadProgress (vars (step s (Settle n DeleteOk))) = 0
              \<and> isUploading (vars (step s (Settle n DeleteOk))) = True
              \<and> uploadedFile (vars (step s (Settle n DeleteOk))) = Some f
              \<and> interval (step s (Settle n DeleteOk))
                  = (if truthy (uploadId (vars s)) then uploadId (vars s) else None)))"
proof -
  have "uploadId (vars (step s (Settle n DeleteOk))) = uploadId (vars s)"
    by (simp add: uploadId_step [of s "Settle n DeleteOk", simplified])
  moreover have "case c of
            None \<Rightarrow>
              uploadStatus (vars (step s (Settle n DeleteOk))) = ''cancelled''
              \<and> uploadProgress (vars (step s (Settle n DeleteOk))) = 0
              \<and> isUploading (vars (step s (Settle n DeleteOk))) = False
              \<and> interval (step s (Settle n DeleteOk)) = None
          | Some f \<Rightarrow>
              uploadStatus (vars (step s (Settle n DeleteOk))) = ''uploading''
              \<and> uploadProgress (vars (step s (Settle n DeleteOk))) = 0
              \<and> isUploading (vars (step s (Settle n DeleteOk))) = True
              \<and> uploadedFile (vars (step s (Settle n DeleteOk))) = Some f
              \<and> interval (step s (Settle n DeleteOk))
                  = (if truthy (uploadId (vars s)) then uploadId (vars s) else None)"
    if "n < length (in_flight s)" "in_flight s ! n = CancelUpload j c"
    using that
    by (simp add: settle_cancel_ok render_def begin_transfer_def cancelUpload_resolved_def
          onDrop_start_def useEffect_interval_def poll_guard_def split: option.splits)
  ultimately show ?thesis
    using uploadId_step [of s ev] by blast
qed

theorem cancel_keeps_upload_id_witness:
  "1 < length (in_flight (step one_poll_out ClickCancel))
   \<and> in_flight (step one_poll_out ClickCancel) ! 1 = CancelUpload ''J1'' None
   \<and> uploadId (vars (step one_poll_out ClickCancel)) = Some ''J1''
   \<and> uploadId (vars (step (step one_poll_out ClickCancel) (Settle 1 DeleteOk))) = Some ''J1''
   \<and> uploadStatus (vars (step (step one_poll_out ClickCancel) (Settle 1 DeleteOk))) = ''cancelled''
   \<and> interval (step (step one_poll_out ClickCancel) (Settle 1 DeleteOk)) = None
   \<and> reset_rendered (vars cancelled_J1)
   \<and> uploadId (vars (step cancelled_J1 ClickReset)) = None
   \<and> uploadId (vars (step cancelled_J1 Tick)) = Some ''J1''"
proof -
  have a: "1 < length (in_flight (step one_poll_out ClickCancel))
     \<and> in_flight (step one_poll_out ClickCancel) ! 1 = CancelUpload ''J1'' None"
    by (simp add: one_poll_out_eval polling_J1_eval cancelUpload_def cancel_rendered_def)
  have b: "uploadId (vars (step one_poll_out ClickCancel)) = Some ''J1''"
    by (simp add: one_poll_out_eval polling_J1_eval cancelUpload_def cancel_rendered_def)
  have c: "reset_rendered (vars cancelled_J1)" "uploadId (vars cancelled_J1) = Some ''J1''"
    by (simp_all add: cancelled_J1_eval reset_rendered_def)
  note t1 = cancel_keeps_upload_id [of "step one_poll_out ClickCancel" Tick 1 "''J1''" None]
  note t2 = cancel_keeps_upload_id [of cancelled_J1 ClickReset 0 "''J1''" None]
  note t3 = cancel_keeps_upload_id [of cancelled_J1 Tick 0 "''J1''" None]
  from t1 a b have "uploadId (vars (step (step one_poll_out ClickCancel) (Settle 1 DeleteOk))) = Some ''J1''
     \<and> uploadStatus (vars (step (step one_poll_out ClickCancel) (Settle 1 DeleteOk))) = ''cancelled''
     \<and> interval (step (step one_poll_out ClickCancel) (Settle 1 DeleteOk)) = None"
    by (simp del: step.simps)
  moreover from t2 c have "uploadId (vars (step cancelled_J1 ClickReset)) = None"
    by (simp del: step.simps)
  moreover from t3 c have "uploadId (vars (step cancelled_J1 Tick)) = Some ''J1''"
    by (simp del: step.simps)
  ultimately show ?thesis
    using a b c by blast
qed

subsection \<open>Progress\<close>

lemma progress_resume:
  "case (case r of StatusOk p \<Rightarrow> if is_poll q then Some (progress p) else None | _ \<Rightarrow> None) of
     Some v \<Rightarrow> uploadProgress (vars (resume q r s)) = v
   | None \<Rightarrow> uploadProgress (vars (resume q r s)) = uploadProgress (vars s)
            \<or> uploadProgress (vars (resume q r s)) = 0"
  by (cases "(q, r, s)" rule: resume.cases)
     (simp_all add: is_poll_def render_def begin_transfer_def Let_def handler_defs
        split: option.splits prod.splits)

text \<open>
  Claim C6 says that the progress never decreases while the session is polling. Two
  answers with status \<^verbatim>\<open>"uploading"\<close> and progress 55, then 10, leave the status
  \<^verbatim>\<open>"uploading"\<close> and the interval set, and the progress reads 55, then 10.
\<close>

theorem progress_decreases_counterexample:
  "uploadStatus (vars one_poll_out) = ''uploading''
   \<and> uploadProgress
        (vars (step one_poll_out (Settle 0 (StatusOk (remote_status ''uploading'' 55 None)))))
       = 55
   \<and> uploadStatus
        (vars (step one_poll_out (Settle 0 (StatusOk (remote_status ''uploading'' 55 None)))))
       = ''uploading''
   \<and> interval (step one_poll_out (Settle 0 (StatusOk (remote_status ''uploading'' 55 None))))
       = Some ''J1''
   \<and> uploadProgress
        (vars (foldl step one_poll_out
           [Settle 0 (StatusOk (remote_status ''uploading'' 55 None)), Tick,
            Settle 0 (StatusOk (remote_status ''uploading'' 10 None))]))
       = 10
   \<and> uploadStatus
        (vars (foldl step one_poll_out
           [Settle 0 (StatusOk (remote_status ''uploading'' 55 None)), Tick,
            Settle 0 (StatusOk (remote_status ''uploading'' 10 None))]))
       = ''uploading''
   \<and> interval
        (foldl step one_poll_out
           [Settle 0 (StatusOk (remote_status ''uploading'' 55 None)), Tick,
            Settle 0 (StatusOk (remote_status ''uploading'' 10 None))])
       = Some ''J1''"
  by (simp add: one_poll_out_eval polling_J1_eval initial_def remote_status_def
        session_defs handler_defs)

text \<open>
  Claim C6, amended. The progress is not kept monotone: in every session, the answer to a
  status request in flight sets the progress to the value that answer reports, whether it
  is lower or higher than the current one, and every other event leaves the progress
  unchanged or sets it to 0.
\<close>

theorem progress_is_overwritten:
  "(case reported_progress s ev of
      Some v \<Rightarrow> uploadProgress (vars (step s ev)) = v
    | None \<Rightarrow> uploadProgress (vars (step s ev)) = uploadProgress (vars s)
             \<or> uploadProgress (vars (step s ev)) = 0)"
proof (cases ev)
  case (Drop fs)
  then show ?thesis
    by (simp add: reported_progress_def onDrop_def begin_transfer_def cancelUpload_def
          render_def handler_defs split: list.splits option.splits)
next
  case ClickCancel
  then show ?thesis
    by (simp add: reported_progress_def cancelUpload_def split: option.splits)
next
  case (Settle k r)
  show ?thesis
  proof (cases "k < length (in_flight s) \<and> answers (in_flight s ! k) r")
    case True
    have st: "step s ev
                = resume (in_flight s ! k) r (s\<lparr>in_flight := without k (in_flight s)\<rparr>)"
      using Settle True by (simp add: settle_def)
    have rp: "reported_progress s ev
                = (case r of
                     StatusOk p \<Rightarrow> if is_poll (in_flight s ! k) then Some (progress p) else None
                   | _ \<Rightarrow> None)"
      using Settle True by (simp add: reported_progress_def split: response.splits)
    show ?thesis
      unfolding st rp
      using progress_resume [where r = r and q = "in_flight s ! k"
                               and s = "s\<lparr>in_flight := without k (in_flight s)\<rparr>"]
      by (cases r) (auto split: if_splits)
  next
    case False
    have st: "step s ev = s"
      using Settle False by (auto simp: settle_def)
    have rp: "reported_progress s ev = None"
      using Settle False
      by (auto simp: reported_progress_def answers_def is_poll_def
            split: response.splits pending.splits)
    show ?thesis
      by (simp add: st rp)
  qed
qed (simp_all add: reported_progress_def click_def render_def tick_def handler_defs
       split: option.splits)

theorem progress_is_overwritten_witness:
  "uploadProgress (vars pending_J1) = 10
   \<and> reported_progress (step pending_J1 Tick)
        (Settle 0 (StatusOk (remote_status ''pending'' 3 None))) = Some 3
   \<and> uploadProgress
        (vars (step (step pending_J1 Tick) (Settle 0 (StatusOk (remote_status ''pending'' 3 None)))))
       = 3
   \<and> reported_progress pending_J1 Tick = None
   \<and> uploadProgress (vars (step pending_J1 Tick)) = 10"
proof -
  have a: "reported_progress (step pending_J1 Tick)
        (Settle 0 (StatusOk (remote_status ''pending'' 3 None))) = Some 3"
    by (simp add: reported_progress_def pending_J1_eval tick_def is_poll_def remote_status_def)
  have b: "reported_progress pending_J1 Tick = None"
    by (simp add: reported_progress_def)
  have c: "uploadProgress (vars pending_J1) = 10" "vars (step pending_J1 Tick) = vars pending_J1"
    by (simp_all add: pending_J1_eval tick_def)
  from progress_is_overwritten
         [of "step pending_J1 Tick" "Settle 0 (StatusOk (remote_status ''pending'' 3 None))"]
       a b c
  show ?thesis
    by (simp del: step.simps)
qed

subsection \<open>When polling stops\<close>

lemma quiet_without: "list_all quiet xs \<Longrightarrow> list_all quiet (without k xs)"
proof -
  assume a: "list_all quiet xs"
  have "set (take k xs) \<subseteq> set xs" "set (drop (Suc k) xs) \<subseteq> set xs"
    by (rule set_take_subset, rule set_drop_subset)
  with a show ?thesis
    unfolding without_def list_all_iff by auto
qed

lemma quiet_nth: "list_all quiet xs \<Longrightarrow> k < length xs \<Longrightarrow> quiet (xs ! k)"
  by (simp add: list_all_length)


lemma stopped_resume:
  assumes "quiet q" and "answers q r"
    and "uploadStatus (vars s) = ''error'' \<or> uploadStatus (vars s) = ''cancelled''
         \<or> uploadStatus (vars s) = ''completed''"
    and "list_all quiet (in_flight s)"
  shows "polling_stopped (resume q r s)
       \<and> filter is_request (effects (resume q r s)) = filter is_request (effects s)"
proof (cases "(q, r, s)" rule: resume.cases)
  case (1 j p s')
  then show ?thesis using assms(1) by (simp add: quiet_def)
next
  case (2 j e s')
  then show ?thesis using assms(1) by (simp add: quiet_def)
next
  case (3 j k s')
  then have "k = None" using assms(1) by (simp add: quiet_def split: option.splits)
  with 3 assms(3,4) show ?thesis
    by (simp add: polling_stopped_def render_def useEffect_interval_def poll_guard_def
          is_request_def cancelUpload_resolved_def)
next
  case (4 j k e s')
  then have "k = None" using assms(1) by (simp add: quiet_def split: option.splits)
  with 4 assms(3,4) show ?thesis
    by (auto simp: polling_stopped_def render_def useEffect_interval_def poll_guard_def
          is_request_def cancelUpload_rejected_def)
next
  case (5 f i s')
  with assms(3,4) show ?thesis
    by (auto simp: polling_stopped_def render_def useEffect_interval_def poll_guard_def
          is_request_def onDrop_accepted_def)
next
  case (6 f e s')
  with assms(3,4) show ?thesis
    by (simp add: polling_stopped_def render_def useEffect_interval_def poll_guard_def
          is_request_def onDrop_failed_def split: prod.splits)
next
  case (7 s')
  with assms(3,4) show ?thesis
    by (auto simp: polling_stopped_def render_def useEffect_interval_def poll_guard_def
          is_request_def testBackendConnection_resolved_def)
next
  case (8 e s')
  with assms(3,4) show ?thesis
    by (auto simp: polling_stopped_def render_def useEffect_interval_def poll_guard_def
          is_request_def testBackendConnection_rejected_def)
qed (use assms(2) in \<open>simp_all add: answers_def\<close>)


lemma stopped_step:
  assumes "polling_stopped s" and "environment_event ev"
  shows "polling_stopped (step s ev)
       \<and> filter is_request (effects (step s ev)) = filter is_request (effects s)"
proof (cases ev)
  case Tick
  then show ?thesis
    using assms(1) by (simp add: tick_def polling_stopped_def)
next
  case (Settle k r)
  show ?thesis
  proof (cases "k < length (in_flight s) \<and> answers (in_flight s ! k) r")
    case True
    have "polling_stopped (resume (in_flight s ! k) r (s\<lparr>in_flight := without k (in_flight s)\<rparr>))
        \<and> filter is_request
             (effects (resume (in_flight s ! k) r (s\<lparr>in_flight := without k (in_flight s)\<rparr>)))
            = filter is_request (effects (s\<lparr>in_flight := without k (in_flight s)\<rparr>))"
      using assms(1) True
      by (intro stopped_resume) (simp_all add: polling_stopped_def quiet_nth quiet_without)
    then show ?thesis
      using Settle True by (simp add: settle_def)
  next
    case False
    then show ?thesis
      using Settle assms(1) by (auto simp: settle_def)
  qed
qed (use assms(2) in \<open>simp_all add: environment_event_def\<close>)

lemma stopped_foldl:
  "polling_stopped s \<Longrightarrow> list_all environment_event evs \<Longrightarrow>
   polling_stopped (foldl step s evs)
   \<and> filter is_request (effects (foldl step s evs)) = filter is_request (effects s)"
proof (induction evs arbitrary: s)
  case Nil
  then show ?case by simp
next
  case (Cons ev evs)
  have a: "polling_stopped (step s ev)
       \<and> filter is_request (effects (step s ev)) = filter is_request (effects s)"
    using Cons.prems by (intro stopped_step) simp_all
  have "polling_stopped (foldl step (step s ev) evs)
       \<and> filter is_request (effects (foldl step (step s ev) evs))
           = filter is_request (effects (step s ev))"
    using a Cons.prems(2) by (intro Cons.IH) simp_all
  with a show ?case by simp
qed



text \<open>
  Claim C7 says that one failed status check stops polling, with no automatic retry. With
  two status requests in flight, the failure of the first sets the status \<^verbatim>\<open>"error"\<close> and
  clears the interval; the answer to the second, status \<^verbatim>\<open>"uploading"\<close>, overwrites
  \<^verbatim>\<open>"error"\<close>, the interval is set again and its tick sends a status request: polling has
  resumed and the user did nothing.
\<close>

theorem polling_resumes_after_failed_check_counterexample:
  "in_flight two_polls_out = [PollStatus ''J1'', PollStatus ''J1'']
   \<and> uploadStatus (vars (step two_polls_out (Settle 0 (Rejected network_down)))) = ''error''
   \<and> interval (step two_polls_out (Settle 0 (Rejected network_down))) = None
   \<and> uploadStatus
        (vars (foldl step two_polls_out
           [Settle 0 (Rejected network_down),
            Settle 0 (StatusOk (remote_status ''uploading'' 20 None))]))
       = ''uploading''
   \<and> interval
        (foldl step two_polls_out
           [Settle 0 (Rejected network_down),
            Settle 0 (StatusOk (remote_status ''uploading'' 20 None))])
       = Some ''J1''
   \<and> effects
        (foldl step two_polls_out
           [Settle 0 (Rejected network_down),
            Settle 0 (StatusOk (remote_status ''uploading'' 20 None)), Tick])
       = effects two_polls_out @ [ConsoleError ''Status polling error:'', AxiosGetStatus ''J1'']"
  by (simp add: two_polls_out_eval polling_J1_eval initial_def remote_status_def
        session_defs handler_defs)

text \<open>
  Claim C7, amended. When a status request fails, the status becomes \<^verbatim>\<open>"error"\<close> with the
  message "Failed to check upload status", \<^verbatim>\<open>isUploading\<close> false, the interval is
  cleared, and the handler sends no request. When the requests still in flight are all
  quiet (no other status request, no cancel request awaited by \<^verbatim>\<open>onDrop\<close>), polling stays
  stopped as long as the user does nothing: whatever ticks and answers follow, the status
  stays terminal, no interval is set and no request is sent.
\<close>

theorem failed_status_check_ends_polling:
  assumes "k < length (in_flight s)" and "in_flight s ! k = PollStatus j"
  shows "uploadStatus (vars (step s (Settle k (Rejected e)))) = ''error''
       \<and> error (vars (step s (Settle k (Rejected e)))) = Some ''Failed to check upload status''
       \<and> isUploading (vars (step s (Settle k (Rejected e)))) = False
       \<and> interval (step s (Settle k (Rejected e))) = None
       \<and> effects (step s (Settle k (Rejected e)))
           = effects s @ [ConsoleError ''Status polling error:'']
       \<and> in_flight (step s (Settle k (Rejected e))) = without k (in_flight s)
       \<and> (list_all quiet (without k (in_flight s)) \<and> list_all environment_event evs \<longrightarrow>
            polling_stopped (foldl step (step s (Settle k (Rejected e))) evs)
          \<and> filter is_request (effects (foldl step (step s (Settle k (Rejected e))) evs))
              = filter is_request (effects s))"
proof -
  have eq: "settle k (Rejected e) s
              = render s (pollStatus_rejected (vars s)) (without k (in_flight s))"
    using assms by (simp add: settle_poll_rejected)
  have now: "uploadStatus (vars (step s (Settle k (Rejected e)))) = ''error''
       \<and> error (vars (step s (Settle k (Rejected e)))) = Some ''Failed to check upload status''
       \<and> isUploading (vars (step s (Settle k (Rejected e)))) = False
       \<and> interval (step s (Settle k (Rejected e))) = None
       \<and> effects (step s (Settle k (Rejected e)))
           = effects s @ [ConsoleError ''Status polling error:'']
       \<and> in_flight (step s (Settle k (Rejected e))) = without k (in_flight s)"
    by (simp add: eq render_def pollStatus_rejected_def useEffect_interval_def poll_guard_def)
  have later: "polling_stopped (foldl step (step s (Settle k (Rejected e))) evs)
          \<and> filter is_request (effects (foldl step (step s (Settle k (Rejected e))) evs))
              = filter is_request (effects s)"
    if q: "list_all quiet (without k (in_flight s))" and ev: "list_all environment_event evs"
  proof -
    have "polling_stopped (step s (Settle k (Rejected e)))"
      using now q by (simp add: polling_stopped_def del: step.simps)
    from stopped_foldl [OF this ev] now show ?thesis
      by (simp add: is_request_def del: step.simps)
  qed
  from now later show ?thesis by blast
qed

theorem failed_status_check_ends_polling_witness:
  "0 < length (in_flight one_poll_out) \<and> in_flight one_poll_out ! 0 = PollStatus ''J1''
   \<and> list_all quiet (without 0 (in_flight one_poll_out))
   \<and> list_all environment_event [Tick, Settle 0 DeleteOk, Tick]
   \<and> uploadStatus (vars (step one_poll_out (Settle 0 (Rejected network_down)))) = ''error''
   \<and> error (vars (step one_poll_out (Settle 0 (Rejected network_down))))
       = Some ''Failed to check upload status''
   \<and> interval (step one_poll_out (Settle 0 (Rejected network_down))) = None
   \<and> in_flight (step one_poll_out (Settle 0 (Rejected network_down))) = []
   \<and> polling_stopped (foldl step (step one_poll_out (Settle 0 (Rejected network_down)))
        [Tick, Settle 0 DeleteOk, Tick])
   \<and> filter is_request
        (effects (foldl step (step one_poll_out (Settle 0 (Rejected network_down)))
           [Tick, Settle 0 DeleteOk, Tick]))
       = filter is_request (effects one_poll_out)"
proof -
  have a: "0 < length (in_flight one_poll_out)" "in_flight one_poll_out ! 0 = PollStatus ''J1''"
    by (simp_all add: one_poll_out_eval)
  have b: "list_all quiet (without 0 (in_flight one_poll_out))"
    "without 0 (in_flight one_poll_out) = []"
    by (simp_all add: one_poll_out_eval without_def)
  have c: "list_all environment_event [Tick, Settle 0 DeleteOk, Tick]"
    by (simp add: environment_event_def)
  from failed_status_check_ends_polling
         [OF a, of network_down "[Tick, Settle 0 DeleteOk, Tick]"] a b c
  show ?thesis
    by (elim conjE) (simp del: step.simps foldl.simps)
qed








subsection \<open>Stale responses\<close>

text \<open>
  Claim C1 says that a response to a status request made for a superseded job is discarded.
  It is not: after start, cancel and a new start accepted as \<open>J2\<close>, the answer to the
  request made for \<open>J1\<close> sets \<^verbatim>\<open>uploadStatus\<close> to \<^verbatim>\<open>"completed"\<close>, the progress to 100
  and calls \<^verbatim>\<open>onComplete\<close> for \<open>J1\<close>; and right after the cancel, an answer with status
  \<^verbatim>\<open>"error"\<close> overwrites \<^verbatim>\<open>"cancelled"\<close>, the progress and the error message.
\<close>

theorem stale_poll_response_counterexample:
  "uploadId (vars restarted_J2) = Some ''J2''
   \<and> in_flight restarted_J2 = [PollStatus ''J1'']
   \<and> uploadStatus (vars restarted_J2) = ''uploading''
   \<and> uploadProgress (vars restarted_J2) = 0
   \<and> uploadStatus (vars (step restarted_J2 (Settle 0 (StatusOk (remote_status ''uploaded'' 100 None)))))
        = ''completed''
   \<and> uploadProgress (vars (step restarted_J2 (Settle 0 (StatusOk (remote_status ''uploaded'' 100 None)))))
        = 100
   \<and> effects (step restarted_J2 (Settle 0 (StatusOk (remote_status ''uploaded'' 100 None))))
        = effects restarted_J2 @
          [ToastSuccess ''File uploaded successfully!'',
           OnComplete ''J1'' (Some ''data.csv'') (Some (50 * 1024 * 1024)) ''uploaded'']
   \<and> uploadStatus (vars cancelled_J1) = ''cancelled''
   \<and> in_flight cancelled_J1 = [PollStatus ''J1'']
   \<and> uploadStatus (vars (step cancelled_J1 (Settle 0 (StatusOk (remote_status ''error'' 40 (Some ''corrupt file''))))))
        = ''error''
   \<and> error (vars (step cancelled_J1 (Settle 0 (StatusOk (remote_status ''error'' 40 (Some ''corrupt file''))))))
        = Some ''corrupt file''
   \<and> uploadProgress (vars (step cancelled_J1 (Settle 0 (StatusOk (remote_status ''error'' 40 (Some ''corrupt file''))))))
        = 40"
  by (simp add: restarted_J2_eval cancelled_J1_eval initial_def remote_status_def
        session_defs handler_defs)

text \<open>
  Claim C1, amended. A response to a status request is never discarded. For every session
  and every status request in flight, whatever upload id the request was made for and
  whatever upload id the session holds now, the answer is applied when it arrives: it
  overwrites the progress and the status (\<^verbatim>\<open>"completed"\<close> for \<^verbatim>\<open>"uploaded"\<close>), sets the error
  message on status \<^verbatim>\<open>"error"\<close>, calls \<^verbatim>\<open>onComplete\<close> with the id of the request on status
  \<^verbatim>\<open>"uploaded"\<close>, and leaves the session's upload id as it is.
\<close>

theorem poll_response_applied_unchecked:
  assumes "k < length (in_flight s)" and "in_flight s ! k = PollStatus j"
  shows "uploadProgress (vars (step s (Settle k (StatusOk p)))) = progress p
       \<and> uploadStatus (vars (step s (Settle k (StatusOk p))))
           = (if status p = ''uploaded'' then ''completed'' else status p)
       \<and> error (vars (step s (Settle k (StatusOk p))))
           = (if status p = ''error'' then Some (or_else (error_field p) ''Upload failed'')
              else error (vars s))
       \<and> effects (step s (Settle k (StatusOk p)))
           = effects s @
             (if status p = ''uploaded'' then
                [ToastSuccess ''File uploaded successfully!'',
                 OnComplete j (filename p) (file_size p) ''uploaded'']
              else if status p = ''error'' then
                [ToastError (or_else (error_field p) ''Upload failed'')]
              else [])
       \<and> uploadId (vars (step s (Settle k (StatusOk p)))) = uploadId (vars s)"
  using assms
  by (simp add: settle_poll_ok render_def pollStatus_resolved_def Let_def)

theorem poll_response_applied_unchecked_witness:
  "0 < length (in_flight restarted_J2) \<and> in_flight restarted_J2 ! 0 = PollStatus ''J1''
   \<and> uploadId (vars restarted_J2) = Some ''J2''
   \<and> uploadProgress (vars (step restarted_J2 (Settle 0 (StatusOk (remote_status ''uploaded'' 100 None)))))
        = 100
   \<and> uploadStatus (vars (step restarted_J2 (Settle 0 (StatusOk (remote_status ''uploaded'' 100 None)))))
        = ''completed''
   \<and> uploadId (vars (step restarted_J2 (Settle 0 (StatusOk (remote_status ''uploaded'' 100 None)))))
        = Some ''J2''"
proof -
  have b: "0 < length (in_flight restarted_J2)" "in_flight restarted_J2 ! 0 = PollStatus ''J1''"
    by (simp_all add: restarted_J2_eval)
  from poll_response_applied_unchecked [OF b, of "remote_status ''uploaded'' 100 None"] b
  show ?thesis by (simp add: remote_status_def restarted_J2_eval)
qed

end
